theory Spec2Isabelle
  imports Complex_Main "HOL-Library.AList"
begin

section \<open>Python values\<close>

text \<open>
  The vendor's responses are JSON documents, and the code handles them as the Python
  values that \<^verbatim>\<open>response.json()\<close> returns. \<open>JNull\<close> is Python's \<^verbatim>\<open>None\<close>. A dictionary
  is an association list in insertion order whose keys are distinct, as a parsed
  dictionary's are. Numbers are the finite ones; a float is modelled by the real number
  it denotes, and comparisons between floats are exact. Arithmetic on floats rounds; it is
  defined with the switch, the one place where the code computes with floats.
\<close>

datatype json =
    JNull
  | JBool bool
  | JNum real
  | JStr string
  | JArr "json list"
  | JObj "(string \<times> json) list"

type_synonym jdict = "(string \<times> json) list"

text \<open>\<^verbatim>\<open>d.get(k)\<close> and \<^verbatim>\<open>d.get(k, default)\<close>.\<close>

definition dict_get_default :: "jdict \<Rightarrow> string \<Rightarrow> json \<Rightarrow> json" where
  "dict_get_default d k dflt = (case map_of d k of None \<Rightarrow> dflt | Some v \<Rightarrow> v)"

definition dict_get :: "jdict \<Rightarrow> string \<Rightarrow> json" where
  "dict_get d k = dict_get_default d k JNull"

text \<open>Truth value of a Python object, as \<^verbatim>\<open>not x\<close>, \<^verbatim>\<open>x or y\<close> and \<^verbatim>\<open>if x\<close> take it.\<close>

fun truthy :: "json \<Rightarrow> bool" where
  "truthy JNull = False"
| "truthy (JBool b) = b"
| "truthy (JNum x) = (x \<noteq> 0)"
| "truthy (JStr s) = (s \<noteq> [])"
| "truthy (JArr xs) = (xs \<noteq> [])"
| "truthy (JObj d) = (d \<noteq> [])"

subsection \<open>Strings\<close>

text \<open>
  A string is the list of the bytes of its UTF-8 encoding. \<^verbatim>\<open>needle in hay\<close> on code
  points is the same test on the encodings. \<^verbatim>\<open>str.lower\<close> is modelled on the ASCII
  letters; the phrase searched for after lowering consists of ASCII letters and blanks,
  and no character outside ASCII lowers to a text that completes it.
\<close>

fun startswith :: "string \<Rightarrow> string \<Rightarrow> bool" where
  "startswith s [] = True"
| "startswith [] (p # ps) = False"
| "startswith (c # cs) (p # ps) = (c = p \<and> startswith cs ps)"

definition endswith :: "string \<Rightarrow> string \<Rightarrow> bool" where
  "endswith s suf = startswith (rev s) (rev suf)"

fun str_in :: "string \<Rightarrow> string \<Rightarrow> bool" where
  "str_in needle [] = (needle = [])"
| "str_in needle (c # cs) = (startswith (c # cs) needle \<or> str_in needle cs)"

definition lower_char :: "char \<Rightarrow> char" where
  "lower_char c =
     (let n = (of_char c :: nat) in if 65 \<le> n \<and> n \<le> 90 then char_of (n + 32) else c)"

definition lower :: "string \<Rightarrow> string" where
  "lower s = map lower_char s"

text \<open>
  \<^verbatim>\<open>str(x)\<close>: a string is itself. What Python prints for any other value is not part of
  the repository; it is the parameter \<open>repr\<close>.
\<close>

definition py_str :: "(json \<Rightarrow> string) \<Rightarrow> json \<Rightarrow> string" where
  "py_str repr v = (case v of JStr s \<Rightarrow> s | _ \<Rightarrow> repr v)"

subsection \<open>Exceptions\<close>

datatype exc =
    OutOfRetries
  | HTTPError int
  | ConnectionError
  | JSONDecodeError
  | AttributeError
  | TypeError
  | ValueError
  | OverflowError
  | KeyError

section \<open>The HTTP client (sems_api.py)\<close>

definition API_VERSION :: string where
  "API_VERSION = ''0.4.2''"

definition LoginURL :: string where
  "LoginURL = ''https://www.semsportal.com/api/v3/Common/CrossLogin''"

definition WallboxURL_V3 :: string where
  "WallboxURL_V3 = ''https://www.semsportal.com/api/v3/EvCharger/GetCurrentChargeinfo''"

definition WallboxURL_V4 :: string where
  "WallboxURL_V4 = ''https://www.semsportal.com/api/v4/EvCharger/GetEvChargerMoreView''"

text \<open>The switch as the repository ships it. The functions below take it as a parameter.\<close>

definition USE_V4_STATUS :: bool where
  "USE_V4_STATUS = False"

definition SetChargeModeURL :: string where
  "SetChargeModeURL = ''https://www.semsportal.com/api/v3/EvCharger/SetChargeMode''"

definition PowerControlURL :: string where
  "PowerControlURL = ''https://www.semsportal.com/api/v3/EvCharger/Charging''"

subsection \<open>Requests, responses and the client's state\<close>

text \<open>
  The \<^verbatim>\<open>token\<close> header is either the fixed text of \<^verbatim>\<open>_DefaultHeaders\<close> or
  \<^verbatim>\<open>json.dumps(self._token)\<close>; the other two headers are the same in every request.
\<close>

datatype token_header = DefaultToken | Dumps "jdict option"

record request =
  url :: string
  token_hdr :: token_header
  body :: json

text \<open>
  What \<^verbatim>\<open>requests.post\<close> gives: an exception (no connection, timeout), or a response
  with its status code and its body, \<open>None\<close> when the body is not JSON.
\<close>

datatype http_result = NetworkError | Response int "json option"

text \<open>
  The vendor's side: the answer to the \<open>k\<close>-th request the client sends (counted from 0).
\<close>

type_synonym world = "nat \<Rightarrow> request \<Rightarrow> http_result"

text \<open>
  The effects of the client in the order they happen: a request sent, and the assignment
  \<^verbatim>\<open>self._token = None\<close> that getData, change_status and set_charge_mode make on an
  expired authorization. What the client writes to the log is not modelled.
\<close>

datatype event = Posted request | TokenCleared

record api_state =
  username :: string
  password :: string
  token :: "jdict option"
  trace :: "event list"

fun is_post :: "event \<Rightarrow> bool" where
  "is_post (Posted r) = True"
| "is_post TokenCleared = False"

definition posts :: "event list \<Rightarrow> nat" where
  "posts tr = length (filter is_post tr)"

definition post :: "world \<Rightarrow> request \<Rightarrow> api_state \<Rightarrow> http_result \<times> api_state" where
  "post w r st = (w (posts (trace st)) r, st\<lparr>trace := trace st @ [Posted r]\<rparr>)"

text \<open>\<^verbatim>\<open>response.raise_for_status()\<close> followed by \<^verbatim>\<open>response.json()\<close>.\<close>

definition checked_json :: "http_result \<Rightarrow> exc + json" where
  "checked_json r =
     (case r of
        NetworkError \<Rightarrow> Inl ConnectionError
      | Response code b \<Rightarrow>
          if 400 \<le> code \<and> code < 600 then Inl (HTTPError code)
          else (case b of None \<Rightarrow> Inl JSONDecodeError | Some j \<Rightarrow> Inr j))"

subsection \<open>Token handling\<close>

definition login_request :: "api_state \<Rightarrow> request" where
  "login_request st =
     \<lparr>url = LoginURL, token_hdr = DefaultToken,
      body = JObj [(''account'', JStr (username st)), (''pwd'', JStr (password st))]\<rparr>"

text \<open>\<^verbatim>\<open>json_response.get("code") not in (0, None)\<close>: Python's \<^verbatim>\<open>False == 0\<close> holds.\<close>

definition code_in_0_None :: "json \<Rightarrow> bool" where
  "code_in_0_None v = (v = JNum 0 \<or> v = JBool False \<or> v = JNull)"

text \<open>
  The token of a login answer. Every exception in \<^verbatim>\<open>_fetch_login_token\<close> is caught and
  gives \<^verbatim>\<open>None\<close>: an answer that is not a dictionary, a missing \<^verbatim>\<open>data\<close>, a \<^verbatim>\<open>data\<close>
  that takes no item assignment.
\<close>

definition login_token :: "http_result \<Rightarrow> jdict option" where
  "login_token r =
     (case checked_json r of
        Inl e \<Rightarrow> None
      | Inr (JObj j) \<Rightarrow>
          if truthy (dict_get j ''hasError'') \<or> \<not> code_in_0_None (dict_get j ''code'')
          then None
          else (case map_of j ''data'' of
                  Some (JObj token_dict) \<Rightarrow>
                    Some (AList.update ''api'' (dict_get j ''api'') token_dict)
                | _ \<Rightarrow> None)
      | Inr _ \<Rightarrow> None)"

definition fetch_login_token :: "world \<Rightarrow> api_state \<Rightarrow> jdict option \<times> api_state" where
  "fetch_login_token w st = (let (r, st') = post w (login_request st) st in (login_token r, st'))"

definition ensure_token :: "world \<Rightarrow> bool \<Rightarrow> api_state \<Rightarrow> bool \<times> api_state" where
  "ensure_token w renew st =
     (if token st = None \<or> renew then
        (let (tk, st') = fetch_login_token w st in
         case tk of
           None \<Rightarrow> (False, st'\<lparr>token := None\<rparr>)
         | Some t \<Rightarrow> (True, st'\<lparr>token := Some t\<rparr>))
      else (True, st))"

definition build_headers :: "world \<Rightarrow> api_state \<Rightarrow> (exc + token_header) \<times> api_state" where
  "build_headers w st =
     (let (ok, st') = ensure_token w False st in
      if \<not> ok then (Inl OutOfRetries, st') else (Inr (Dumps (token st')), st'))"

definition test_authentication :: "world \<Rightarrow> api_state \<Rightarrow> bool \<times> api_state" where
  "test_authentication w st = ensure_token w True st"

subsection \<open>Data fetch\<close>

definition resolve_status_url :: "bool \<Rightarrow> string" where
  "resolve_status_url use_v4 = (if use_v4 then WallboxURL_V4 else WallboxURL_V3)"

text \<open>The vendor's word for success, \<^verbatim>\<open>U+6210 U+529F\<close>, in UTF-8.\<close>

definition success_msg :: string where
  "success_msg = [CHR 0xE6, CHR 0x88, CHR 0x90, CHR 0xE5, CHR 0x8A, CHR 0x9F]"

definition authorization_expired :: "string \<Rightarrow> bool" where
  "authorization_expired msg = str_in ''authorization has expired'' (lower msg)"

text \<open>
  The request of getData with its inner handler: an HTTP 404 from the v4 endpoint is
  answered by the same request to the v3 endpoint, every other exception goes on.
\<close>

definition request_status ::
  "bool \<Rightarrow> world \<Rightarrow> string \<Rightarrow> token_header \<Rightarrow> json \<Rightarrow> api_state \<Rightarrow> (exc + json) \<times> api_state" where
  "request_status use_v4 w wallbox_url headers payload st =
     (let (r, st1) = post w \<lparr>url = wallbox_url, token_hdr = headers, body = payload\<rparr> st in
      case checked_json r of
        Inl (HTTPError code) \<Rightarrow>
          if use_v4 \<and> endswith wallbox_url ''GetEvChargerMoreView'' \<and> code = 404 then
            (let (r3, st2) =
               post w \<lparr>url = WallboxURL_V3, token_hdr = headers, body = payload\<rparr> st1
             in (checked_json r3, st2))
          else (Inl (HTTPError code), st1)
      | Inl e \<Rightarrow> (Inl e, st1)
      | Inr json_response \<Rightarrow> (Inr json_response, st1))"

text \<open>
  \<^verbatim>\<open>data\<close> and \<^verbatim>\<open>msg\<close> of the answer, and the second fallback: the v4 endpoint said
  success and sent no data. \<^verbatim>\<open>.get\<close> on an answer that is not a dictionary raises.
\<close>

definition read_status ::
  "bool \<Rightarrow> (json \<Rightarrow> string) \<Rightarrow> world \<Rightarrow> token_header \<Rightarrow> json \<Rightarrow> api_state
     \<Rightarrow> (exc + json \<times> string) \<times> api_state" where
  "read_status use_v4 repr w headers payload st =
     (let wallbox_url = resolve_status_url use_v4 in
      case request_status use_v4 w wallbox_url headers payload st of
        (Inl e, st1) \<Rightarrow> (Inl e, st1)
      | (Inr (JObj json_response), st1) \<Rightarrow>
          (let data = dict_get json_response ''data'';
               msg = py_str repr (dict_get_default json_response ''msg'' (JStr []))
           in
           if use_v4 \<and> endswith wallbox_url ''GetEvChargerMoreView'' \<and> data = JNull
              \<and> str_in success_msg msg
           then
             (let (r3, st2) =
                post w \<lparr>url = WallboxURL_V3, token_hdr = headers, body = payload\<rparr> st1
              in
              case checked_json r3 of
                Inl e \<Rightarrow> (Inl e, st2)
              | Inr (JObj json_v3) \<Rightarrow>
                  (Inr (dict_get json_v3 ''data'',
                        py_str repr (dict_get_default json_v3 ''msg'' (JStr msg))), st2)
              | Inr _ \<Rightarrow> (Inl AttributeError, st2))
           else (Inr (data, msg), st1))
      | (Inr _, st1) \<Rightarrow> (Inl AttributeError, st1))"

text \<open>
  The handlers that close getData: OutOfRetries is raised again, every other exception is
  logged and the call returns \<^verbatim>\<open>None\<close>.
\<close>

definition getData_except :: "exc \<Rightarrow> exc + json" where
  "getData_except e = (if e = OutOfRetries then Inl OutOfRetries else Inr JNull)"

definition clear_token :: "api_state \<Rightarrow> api_state" where
  "clear_token st = st\<lparr>token := None, trace := trace st @ [TokenCleared]\<rparr>"

function getData ::
  "bool \<Rightarrow> (json \<Rightarrow> string) \<Rightarrow> world \<Rightarrow> json \<Rightarrow> bool \<Rightarrow> int \<Rightarrow> api_state
     \<Rightarrow> (exc + json) \<times> api_state" where
  "getData use_v4 repr w wallbox_sn renewToken maxTokenRetries st =
     (if maxTokenRetries < 0 then (Inl OutOfRetries, st)
      else
        (let (ok, st1) = ensure_token w renewToken st in
         if \<not> ok then (Inr JNull, st1)
         else
           (case build_headers w st1 of
              (Inl e, st2) \<Rightarrow> (getData_except e, st2)
            | (Inr headers, st2) \<Rightarrow>
                (case read_status use_v4 repr w headers (JObj [(''sn'', wallbox_sn)]) st2 of
                   (Inl e, st3) \<Rightarrow> (getData_except e, st3)
                 | (Inr (data, msg), st3) \<Rightarrow>
                     if data = JNull \<and> authorization_expired msg then
                       getData use_v4 repr w wallbox_sn True (maxTokenRetries - 1)
                         (clear_token st3)
                     else if data = JNull then (Inr JNull, st3)
                     else (Inr data, st3)))))"
  by pat_completeness auto
termination
  by (relation "measure (\<lambda>(use_v4, repr, w, sn, renew, n, st). nat (n + 1))") auto

declare getData.simps [simp del]

subsection \<open>Commands\<close>

text \<open>
  The test that change_status and set_charge_mode make on the answer:
  \<^verbatim>\<open>isinstance(resp_json, dict)\<close> and the phrase in \<^verbatim>\<open>str(resp_json.get("msg", ""))\<close>.
\<close>

definition resp_expired :: "(json \<Rightarrow> string) \<Rightarrow> json option \<Rightarrow> bool" where
  "resp_expired repr resp_json =
     (case resp_json of
        Some (JObj j) \<Rightarrow>
          authorization_expired (py_str repr (dict_get_default j ''msg'' (JStr [])))
      | _ \<Rightarrow> False)"

definition resp_no_data :: "json option \<Rightarrow> bool" where
  "resp_no_data resp_json =
     (case resp_json of Some (JObj j) \<Rightarrow> dict_get j ''data'' = JNull | _ \<Rightarrow> False)"

text \<open>
  The only handler of a command is \<^verbatim>\<open>except Exception\<close>: it logs the exception, and the
  call returns \<^verbatim>\<open>None\<close> as it does at every \<^verbatim>\<open>return\<close>.
\<close>

definition command_except :: "(exc + unit) \<times> api_state \<Rightarrow> (exc + unit) \<times> api_state" where
  "command_except r = (case r of (Inl e, st) \<Rightarrow> (Inr (), st) | (Inr u, st) \<Rightarrow> (Inr u, st))"

text \<open>
  change_status and set_charge_mode are the same text in the source, line by line, but for
  the URL, the body of the request and the wording of the log. send_command is that text;
  where the source calls itself again, with the same arguments, send_command does.
\<close>

function send_command ::
  "(json \<Rightarrow> string) \<Rightarrow> world \<Rightarrow> string \<Rightarrow> json \<Rightarrow> bool \<Rightarrow> int \<Rightarrow> api_state
     \<Rightarrow> (exc + unit) \<times> api_state" where
  "send_command repr w command_url data renewToken maxTokenRetries st =
     command_except
       (if maxTokenRetries < 0 then (Inl OutOfRetries, st)
        else
          (let (ok, st1) = ensure_token w renewToken st in
           if \<not> ok then (Inr (), st1)
           else
             (case build_headers w st1 of
                (Inl e, st2) \<Rightarrow> (Inl e, st2)
              | (Inr headers, st2) \<Rightarrow>
                  (case post w \<lparr>url = command_url, token_hdr = headers, body = data\<rparr> st2 of
                     (NetworkError, st3) \<Rightarrow> (Inl ConnectionError, st3)
                   | (Response status_code resp_json, st3) \<Rightarrow>
                       if status_code \<noteq> 200
                          \<or> (resp_no_data resp_json \<and> resp_expired repr resp_json)
                       then
                         if resp_expired repr resp_json \<and> maxTokenRetries > 0 then
                           send_command repr w command_url data True (maxTokenRetries - 1)
                             (clear_token st3)
                         else (Inr (), st3)
                       else (Inr (), st3)))))"
  by pat_completeness auto
termination
  by (relation "measure (\<lambda>(repr, w, u, d, renew, n, st). nat (n + 1))") auto

declare send_command.simps [simp del]

definition change_status ::
  "(json \<Rightarrow> string) \<Rightarrow> world \<Rightarrow> json \<Rightarrow> json \<Rightarrow> bool \<Rightarrow> int \<Rightarrow> api_state
     \<Rightarrow> (exc + unit) \<times> api_state" where
  "change_status repr w inverterSn status renewToken maxTokenRetries st =
     send_command repr w PowerControlURL
       (JObj [(''sn'', inverterSn), (''status'', JStr (py_str repr status))])
       renewToken maxTokenRetries st"

definition set_charge_mode ::
  "(json \<Rightarrow> string) \<Rightarrow> world \<Rightarrow> json \<Rightarrow> json \<Rightarrow> json \<Rightarrow> bool \<Rightarrow> int \<Rightarrow> api_state
     \<Rightarrow> (exc + unit) \<times> api_state" where
  "set_charge_mode repr w wallboxSn mode chargePower renewToken maxTokenRetries st =
     send_command repr w SetChargeModeURL
       (if chargePower \<noteq> JNull
        then JObj [(''sn'', wallboxSn), (''type'', mode), (''charge_power'', chargePower)]
        else JObj [(''sn'', wallboxSn), (''type'', mode)])
       renewToken maxTokenRetries st"

section \<open>The poll (coordinator.py)\<close>

text \<open>
  What \<^verbatim>\<open>_async_update_data\<close> raises: UpdateFailed with one of its four messages, or
  an exception of the lines after the handlers, which nothing in the function catches.
\<close>

datatype update_failed = TooManyRetries | ErrorCommunicating | NoDataReceived | MissingSn

datatype host_error = UpdateFailed update_failed | Uncaught exc

text \<open>
  The values that can be the key of a dictionary: of the values of JSON, all but the lists
  and the dictionaries. \<open>key_of\<close> is \<open>None\<close> where Python raises TypeError for an
  unhashable key.
\<close>

datatype dict_key = KNull | KBool bool | KNum real | KStr string

definition key_of :: "json \<Rightarrow> dict_key option" where
  "key_of v =
     (case v of
        JNull \<Rightarrow> Some KNull
      | JBool b \<Rightarrow> Some (KBool b)
      | JNum x \<Rightarrow> Some (KNum x)
      | JStr s \<Rightarrow> Some (KStr s)
      | JArr xs \<Rightarrow> None
      | JObj d \<Rightarrow> None)"

fun json_of_key :: "dict_key \<Rightarrow> json" where
  "json_of_key KNull = JNull"
| "json_of_key (KBool b) = JBool b"
| "json_of_key (KNum x) = JNum x"
| "json_of_key (KStr s) = JStr s"

text \<open>
  Two keys are the same key of a dictionary when Python's \<^verbatim>\<open>==\<close> holds between them:
  \<^verbatim>\<open>True\<close> is 1 and \<^verbatim>\<open>False\<close> is 0.
\<close>

fun key_number :: "dict_key \<Rightarrow> real option" where
  "key_number (KBool b) = Some (if b then 1 else 0)"
| "key_number (KNum x) = Some x"
| "key_number KNull = None"
| "key_number (KStr s) = None"

definition key_eq :: "dict_key \<Rightarrow> dict_key \<Rightarrow> bool" where
  "key_eq a b =
     (case (key_number a, key_number b) of
        (Some x, Some y) \<Rightarrow> x = y
      | (None, None) \<Rightarrow> a = b
      | _ \<Rightarrow> False)"

type_synonym coordinator_data = "(dict_key \<times> jdict) list"

fun dict_lookup :: "coordinator_data \<Rightarrow> dict_key \<Rightarrow> jdict option" where
  "dict_lookup [] key = None"
| "dict_lookup ((k, reading) # rest) key =
     (if key_eq k key then Some reading else dict_lookup rest key)"

definition async_update_data ::
  "bool \<Rightarrow> (json \<Rightarrow> string) \<Rightarrow> world \<Rightarrow> string \<Rightarrow> api_state
     \<Rightarrow> (host_error + coordinator_data) \<times> api_state" where
  "async_update_data use_v4 repr w station_id st =
     (case getData use_v4 repr w (JStr station_id) False 1 st of
        (Inl OutOfRetries, st') \<Rightarrow> (Inl (UpdateFailed TooManyRetries), st')
      | (Inl err, st') \<Rightarrow> (Inl (UpdateFailed ErrorCommunicating), st')
      | (Inr JNull, st') \<Rightarrow> (Inl (UpdateFailed NoDataReceived), st')
      | (Inr (JObj result), st') \<Rightarrow>
          (let sn = dict_get result ''sn'' in
           if \<not> truthy sn then (Inl (UpdateFailed MissingSn), st')
           else (case key_of sn of
                   None \<Rightarrow> (Inl (Uncaught TypeError), st')
                 | Some key \<Rightarrow> (Inr [(key, result)], st')))
      | (Inr other, st') \<Rightarrow> (Inl (Uncaught AttributeError), st'))"

text \<open>\<^verbatim>\<open>self.coordinator.data.get(self.sn, {})\<close>.\<close>

definition reading_or_empty :: "coordinator_data \<Rightarrow> dict_key \<Rightarrow> jdict" where
  "reading_or_empty cd key =
     (case dict_lookup cd key of None \<Rightarrow> [] | Some reading \<Rightarrow> reading)"

text \<open>
  Every entity is made for one key of the coordinator's data; where it sends the key to
  the vendor, it sends the value that the key is. Where an entity writes its state to the
  host or asks the coordinator for a refresh, it calls into the host; these calls are not
  modelled, and a command is taken to run to its end before the next poll.
\<close>

record coordinator_entity =
  sn :: dict_key

section \<open>The status sensor (sensor.py)\<close>

definition SemsSensor_attr_options :: "string list" where
  "SemsSensor_attr_options = [''Charging'', ''Standby'', ''Offline'', ''Unknown'']"

definition SemsSensor_state :: "coordinator_data \<Rightarrow> dict_key \<Rightarrow> string" where
  "SemsSensor_state cd key =
     (let data = reading_or_empty cd key; status = dict_get data ''status'' in
      if status = JStr ''EVDetail_Status_Title_Charging'' then ''Charging''
      else if status = JStr ''EVDetail_Status_Title_Waiting'' then ''Standby''
      else if status = JStr ''EVDetail_Status_Title_Offline'' then ''Offline''
      else ''Unknown'')"

section \<open>The charge mode (select.py)\<close>

definition MODE_TO_OPTION :: "(int \<times> string) list" where
  "MODE_TO_OPTION = [(0, ''Fast''), (1, ''PV priority''), (2, ''PV & battery'')]"

text \<open>\<^verbatim>\<open>{value: key for key, value in _MODE_TO_OPTION.items()}\<close>: a later item overwrites.\<close>

definition OPTION_TO_MODE :: "(string \<times> int) list" where
  "OPTION_TO_MODE = foldl (\<lambda>d (key, value). AList.update value key d) [] MODE_TO_OPTION"

text \<open>\<^verbatim>\<open>list(_MODE_TO_OPTION.values())\<close>, the options that async_setup_entry gives the entity.\<close>

definition supported_options :: "string list" where
  "supported_options = map snd MODE_TO_OPTION"

record select_entity = coordinator_entity +
  attr_options :: "string list"
  attr_current_option :: string
  current_charge_power :: json

text \<open>The entity and the client before and after the call.\<close>

definition async_select_option ::
  "(json \<Rightarrow> string) \<Rightarrow> world \<Rightarrow> string \<Rightarrow> select_entity \<times> api_state
     \<Rightarrow> select_entity \<times> api_state" where
  "async_select_option repr w option s =
     (case s of (ent, api) \<Rightarrow>
        (case map_of OPTION_TO_MODE option of
           None \<Rightarrow> (ent, api)
         | Some mode \<Rightarrow>
             (ent\<lparr>attr_current_option := option\<rparr>,
              snd (set_charge_mode repr w (json_of_key (sn ent)) (JNum (of_int mode))
                     (current_charge_power ent) False 1 api))))"

section \<open>The charge power (number.py)\<close>


definition native_step :: real where
  "native_step = 0.1"




section \<open>The charging switch (switch.py)\<close>

definition GRACE_ON_SECONDS :: real where
  "GRACE_ON_SECONDS = 130"

definition GRACE_OFF_SECONDS :: real where
  "GRACE_OFF_SECONDS = 130"

record switch_entity = coordinator_entity +
  attr_is_on :: bool
  last_command_ts :: "real option"
  last_command_target :: "bool option"

subsection \<open>Floating point\<close>

text \<open>
  A Python float is a number of IEEE 754 binary64: an integer multiple of \<open>2 ^ (e - 52)\<close>
  smaller in size than \<open>2 ^ (e + 1)\<close>, for an exponent \<open>e\<close> between -1022 and 1023. The
  result of an operation on floats is the exact result rounded to the nearest float, to
  the one with the even multiple when two are equally near.

  \<open>float_exponent x\<close> is the exponent of the floats around \<open>x\<close>: the \<open>e\<close> with
  \<open>2 ^ e \<le> \<bar>x\<bar> < 2 ^ (e + 1)\<close>, looked for from -1022 upwards through the 2046 exponents
  of the format.
\<close>

fun float_exponent_from :: "nat \<Rightarrow> int \<Rightarrow> real \<Rightarrow> int" where
  "float_exponent_from 0 e x = e"
| "float_exponent_from (Suc k) e x =
     (if 2 powi (e + 1) \<le> \<bar>x\<bar> then float_exponent_from k (e + 1) x else e)"

definition float_exponent :: "real \<Rightarrow> int" where
  "float_exponent x = float_exponent_from 2045 (- 1022) x"

definition float_ulp :: "real \<Rightarrow> real" where
  "float_ulp x = 2 powi (float_exponent x - 52)"

definition round_half_even :: "real \<Rightarrow> int" where
  "round_half_even x =
     (let f = \<lfloor>x\<rfloor>; r = x - of_int f in
      if r < 1 / 2 then f else if 1 / 2 < r then f + 1 else if even f then f else f + 1)"

definition round64 :: "real \<Rightarrow> real" where
  "round64 x = of_int (round_half_even (x / float_ulp x)) * float_ulp x"

text \<open>
  A number that rounds to \<open>2 ^ 1024\<close> or beyond in size is out of the range of the floats.
  An operation on floats then gives an infinity, and the conversion of an integer raises
  OverflowError.
\<close>

definition float_overflow :: "real \<Rightarrow> bool" where
  "float_overflow x = (2 ^ 1024 \<le> \<bar>round64 x\<bar>)"

text \<open>
  \<^verbatim>\<open>a - b\<close> on floats. An infinite result is held as the number that \<open>round64\<close> gives, of
  size \<open>2 ^ 1024\<close> or more and of the sign of the infinity; compared with a float it is
  smaller or greater as the infinity is.
\<close>

definition float_sub :: "real \<Rightarrow> real \<Rightarrow> real" where
  "float_sub a b = round64 (a - b)"

text \<open>
  \<^verbatim>\<open>float(x)\<close>: a float is itself and an integer is rounded, which is \<open>round64\<close> for
  both. How Python reads a number from a text is not part of the repository; it is the
  parameter \<open>parse\<close>, \<open>None\<close> where \<^verbatim>\<open>float\<close> raises ValueError.
\<close>

definition py_float :: "(string \<Rightarrow> real option) \<Rightarrow> json \<Rightarrow> exc + real" where
  "py_float parse v =
     (case v of
        JNum x \<Rightarrow> (if float_overflow x then Inl OverflowError else Inr (round64 x))
      | JBool b \<Rightarrow> Inr (if b then 1 else 0)
      | JStr s \<Rightarrow> (case parse s of None \<Rightarrow> Inl ValueError | Some x \<Rightarrow> Inr x)
      | _ \<Rightarrow> Inl TypeError)"

text \<open>\<^verbatim>\<open>float(data.get("power", 0) or 0)\<close>.\<close>

definition reported_power :: "(string \<Rightarrow> real option) \<Rightarrow> jdict \<Rightarrow> exc + real" where
  "reported_power parse data =
     (let p = dict_get_default data ''power'' (JNum 0) in
      py_float parse (if truthy p then p else JNum 0))"

text \<open>\<^verbatim>\<open>status == "EVDetail_Status_Title_Charging" or power > 0\<close>.\<close>

definition reported_is_on :: "jdict \<Rightarrow> real \<Rightarrow> bool" where
  "reported_is_on data power_kw =
     (dict_get data ''status'' = JStr ''EVDetail_Status_Title_Charging'' \<or> power_kw > 0)"

text \<open>\<^verbatim>\<open>ts is not None and now - ts < limit\<close>, on floats.\<close>

definition since :: "real option \<Rightarrow> real \<Rightarrow> real \<Rightarrow> bool" where
  "since ts now limit = (case ts of None \<Rightarrow> False | Some t \<Rightarrow> float_sub now t < limit)"

text \<open>\<open>now\<close> is the reading of the host's clock, \<^verbatim>\<open>self.hass.loop.time()\<close>.\<close>

definition compute_is_on_from_data ::
  "(string \<Rightarrow> real option) \<Rightarrow> real \<Rightarrow> jdict \<Rightarrow> switch_entity \<Rightarrow> (exc + bool) \<times> switch_entity" where
  "compute_is_on_from_data parse now data ent =
     (case reported_power parse data of
        Inl e \<Rightarrow> (Inl e, ent)
      | Inr power_kw \<Rightarrow>
          (let api_is_on = reported_is_on data power_kw;
               target = last_command_target ent;
               ts = last_command_ts ent
           in
           if target = Some True \<and> since ts now GRACE_ON_SECONDS \<and> \<not> api_is_on
           then (Inr True, ent)
           else if target = Some False \<and> since ts now GRACE_OFF_SECONDS \<and> api_is_on
           then (Inr False, ent)
           else if target \<noteq> None \<and> Some api_is_on = target
           then (Inr api_is_on, ent\<lparr>last_command_target := None, last_command_ts := None\<rparr>)
           else (Inr api_is_on, ent)))"

definition async_turn_off ::
  "(json \<Rightarrow> string) \<Rightarrow> world \<Rightarrow> real \<Rightarrow> switch_entity \<times> api_state \<Rightarrow> switch_entity \<times> api_state" where
  "async_turn_off repr w now s =
     (case s of (ent, api) \<Rightarrow>
        (ent\<lparr>last_command_target := Some False, last_command_ts := Some now, attr_is_on := False\<rparr>,
         snd (change_status repr w (json_of_key (sn ent)) (JNum 2) False 1 api)))"

definition async_turn_on ::
  "(json \<Rightarrow> string) \<Rightarrow> world \<Rightarrow> real \<Rightarrow> switch_entity \<times> api_state \<Rightarrow> switch_entity \<times> api_state" where
  "async_turn_on repr w now s =
     (case s of (ent, api) \<Rightarrow>
        (ent\<lparr>last_command_target := Some True, last_command_ts := Some now, attr_is_on := True\<rparr>,
         snd (change_status repr w (json_of_key (sn ent)) (JNum 1) False 1 api)))"

text \<open>\<^verbatim>\<open>self.coordinator.data[self.sn]\<close> raises KeyError for a key that is not there.\<close>

definition handle_coordinator_update ::
  "(string \<Rightarrow> real option) \<Rightarrow> real \<Rightarrow> coordinator_data \<Rightarrow> switch_entity
     \<Rightarrow> (exc + unit) \<times> switch_entity" where
  "handle_coordinator_update parse now cd ent =
     (case dict_lookup cd (sn ent) of
        None \<Rightarrow> (Inl KeyError, ent)
      | Some data \<Rightarrow>
          (case compute_is_on_from_data parse now data ent of
             (Inl e, ent') \<Rightarrow> (Inl e, ent')
           | (Inr is_on, ent') \<Rightarrow> (Inr (), ent'\<lparr>attr_is_on := is_on\<rparr>)))"

section \<open>Requests and answers\<close>

text \<open>
  The requests that getData, change_status and set_charge_mode send, as functions of the
  token in the header. The functions above build them in place.
\<close>

definition status_request :: "bool \<Rightarrow> jdict option \<Rightarrow> json \<Rightarrow> request" where
  "status_request use_v4 tok wallbox_sn =
     \<lparr>url = resolve_status_url use_v4, token_hdr = Dumps tok, body = JObj [(''sn'', wallbox_sn)]\<rparr>"

definition change_status_request :: "(json \<Rightarrow> string) \<Rightarrow> jdict option \<Rightarrow> json \<Rightarrow> json \<Rightarrow> request" where
  "change_status_request repr tok inverterSn status =
     \<lparr>url = PowerControlURL, token_hdr = Dumps tok,
      body = JObj [(''sn'', inverterSn), (''status'', JStr (py_str repr status))]\<rparr>"

definition set_charge_mode_request :: "jdict option \<Rightarrow> json \<Rightarrow> json \<Rightarrow> json \<Rightarrow> request" where
  "set_charge_mode_request tok wallboxSn mode chargePower =
     \<lparr>url = SetChargeModeURL, token_hdr = Dumps tok,
      body = (if chargePower \<noteq> JNull
              then JObj [(''sn'', wallboxSn), (''type'', mode), (''charge_power'', chargePower)]
              else JObj [(''sn'', wallboxSn), (''type'', mode)])\<rparr>"

text \<open>
  An answer to the status request that sends getData into its retry: no exception from
  \<^verbatim>\<open>raise_for_status\<close> or \<^verbatim>\<open>json\<close>, a dictionary, no \<^verbatim>\<open>data\<close>, and the phrase in
  \<^verbatim>\<open>msg\<close>.
\<close>

definition expired_status_answer :: "(json \<Rightarrow> string) \<Rightarrow> http_result \<Rightarrow> bool" where
  "expired_status_answer repr r =
     (case checked_json r of
        Inr (JObj j) \<Rightarrow>
          dict_get j ''data'' = JNull
          \<and> authorization_expired (py_str repr (dict_get_default j ''msg'' (JStr [])))
      | _ \<Rightarrow> False)"

text \<open>
  The same for a command: the answer is a dictionary without \<^verbatim>\<open>data\<close> and with the
  phrase in \<^verbatim>\<open>msg\<close>, whatever its status code.
\<close>

definition expired_command_answer :: "(json \<Rightarrow> string) \<Rightarrow> http_result \<Rightarrow> bool" where
  "expired_command_answer repr r =
     (case r of
        NetworkError \<Rightarrow> False
      | Response status_code resp_json \<Rightarrow> resp_no_data resp_json \<and> resp_expired repr resp_json)"

text \<open>What getData returns for an answer that ends the call: its \<^verbatim>\<open>data\<close>, or \<^verbatim>\<open>None\<close>.\<close>

definition status_result :: "http_result \<Rightarrow> json" where
  "status_result r = (case checked_json r of Inr (JObj j) \<Rightarrow> dict_get j ''data'' | _ \<Rightarrow> JNull)"

text \<open>
  An error in the answer to the status request: no connection, an HTTP error status, a
  body that is not a JSON dictionary, or a dictionary without \<^verbatim>\<open>data\<close> whose \<^verbatim>\<open>msg\<close>
  does not speak of an expired authorization.
\<close>

definition failed_status_answer :: "(json \<Rightarrow> string) \<Rightarrow> http_result \<Rightarrow> bool" where
  "failed_status_answer repr r =
     (case checked_json r of
        Inl e \<Rightarrow> True
      | Inr (JObj j) \<Rightarrow>
          dict_get j ''data'' = JNull
          \<and> \<not> authorization_expired (py_str repr (dict_get_default j ''msg'' (JStr [])))
      | Inr _ \<Rightarrow> True)"

text \<open>
  An error in the answer to a command: no connection, or a status code other than 200
  with no word of an expired authorization.
\<close>

definition failed_command_answer :: "(json \<Rightarrow> string) \<Rightarrow> http_result \<Rightarrow> bool" where
  "failed_command_answer repr r =
     (case r of
        NetworkError \<Rightarrow> True
      | Response status_code resp_json \<Rightarrow> status_code \<noteq> 200 \<and> \<not> resp_expired repr resp_json)"

text \<open>
  The two answers of the v4 endpoint after which getData turns to the v3 endpoint: HTTP
  404, and a dictionary without \<^verbatim>\<open>data\<close> whose \<^verbatim>\<open>msg\<close> contains the vendor's word for
  success.
\<close>

definition v4_fallback_answer :: "(json \<Rightarrow> string) \<Rightarrow> http_result \<Rightarrow> bool" where
  "v4_fallback_answer repr r =
     (case checked_json r of
        Inl e \<Rightarrow> e = HTTPError 404
      | Inr (JObj j) \<Rightarrow>
          dict_get j ''data'' = JNull
          \<and> str_in success_msg (py_str repr (dict_get_default j ''msg'' (JStr [])))
      | Inr _ \<Rightarrow> False)"

section \<open>Concrete clients, vendors and entities\<close>

text \<open>Values at which the theorems below are instantiated.\<close>

definition repr0 :: "json \<Rightarrow> string" where
  "repr0 v = ''?''"

definition api0 :: api_state where
  "api0 = \<lparr>username = ''user'', password = ''secret'',
           token = Some [(''uid'', JStr ''u1'')], trace = []\<rparr>"

definition api_fresh :: api_state where
  "api_fresh = \<lparr>username = ''user'', password = ''secret'', token = None, trace = []\<rparr>"

definition expired_answer :: http_result where
  "expired_answer =
     Response 200 (Some (JObj [(''code'', JNum 100002),
       (''msg'', JStr ''The authorization has expired, please log in again.''),
       (''data'', JNull)]))"

definition login_answer :: http_result where
  "login_answer =
     Response 200 (Some (JObj [(''code'', JNum 0), (''msg'', JStr ''Successful''),
       (''data'', JObj [(''uid'', JStr ''u2'')])]))"

definition reading0 :: jdict where
  "reading0 = [(''sn'', JStr ''WB1''), (''status'', JStr ''EVDetail_Status_Title_Waiting''),
               (''power'', JNum 0), (''chargeMode'', JNum 1)]"

definition data_answer :: http_result where
  "data_answer =
     Response 200 (Some (JObj [(''code'', JNum 0), (''msg'', JStr ''Successful''),
       (''data'', JObj reading0)]))"

text \<open>A vendor that is not reachable, and one that answers every request with data.\<close>

definition world_down :: world where
  "world_down k r = NetworkError"

definition world_up :: world where
  "world_up k r = (if url r = LoginURL then login_answer else data_answer)"

definition select0 :: select_entity where
  "select0 = \<lparr>sn = KStr ''WB1'', attr_options = supported_options,
               attr_current_option = ''Fast'', current_charge_power = JNum 11\<rparr>"

text \<open>A vendor that lets the client log in and then calls every authorization expired.\<close>

definition world_expired :: world where
  "world_expired k r = (if url r = LoginURL then login_answer else expired_answer)"

text \<open>A vendor that calls the authorization expired and is not reachable afterwards.\<close>

definition world_relogin_fails :: world where
  "world_relogin_fails k r = (if k = 0 then expired_answer else NetworkError)"


definition switch0 :: switch_entity where
  "switch0 = \<lparr>sn = KStr ''WB1'', attr_is_on = False, last_command_ts = None,
               last_command_target = None\<rparr>"

definition parse0 :: "string \<Rightarrow> real option" where
  "parse0 s = (if s = ''0.0'' then Some 0 else if s = ''7.5'' then Some 7.5 else None)"

text \<open>A vendor whose reading has no serial number.\<close>

definition world_no_sn :: world where
  "world_no_sn k r =
     Response 200 (Some (JObj [(''msg'', JStr ''Successful''),
       (''data'', JObj [(''status'', JStr ''EVDetail_Status_Title_Waiting'')])]))"

definition reading_charging :: jdict where
  "reading_charging = [(''sn'', JStr ''WB1''), (''status'', JStr ''EVDetail_Status_Title_Charging''),
               (''power'', JStr ''7.5''), (''chargeMode'', JNum 0)]"

text \<open>A vendor whose first answer calls the authorization expired and who is well afterwards.\<close>

definition world_renewed :: world where
  "world_renewed k r =
     (if k = 0 then expired_answer else if url r = LoginURL then login_answer else data_answer)"

text \<open>A vendor that answers every request with HTTP 500.\<close>

definition world_broken :: world where
  "world_broken k r = Response 500 None"

text \<open>A vendor without the v4 endpoint.\<close>

definition world_v4_404 :: world where
  "world_v4_404 k r = (if url r = WallboxURL_V4 then Response 404 None else data_answer)"

text \<open>A vendor whose v4 endpoint says success in Chinese and sends no data.\<close>

definition world_v4_empty :: world where
  "world_v4_empty k r =
     (if url r = WallboxURL_V4
      then Response 200 (Some (JObj [(''code'', JNum 0), (''msg'', JStr success_msg)]))
      else data_answer)"

text \<open>A vendor that says success in English and sends no data.\<close>

definition world_v4_success :: world where
  "world_v4_success k r =
     Response 200 (Some (JObj [(''code'', JNum 0), (''msg'', JStr ''success'')]))"

section \<open>The cached token\<close>

lemma ensure_token_cached: "token st \<noteq> None \<Longrightarrow> ensure_token w False st = (True, st)"
  by (auto simp add: ensure_token_def)

text \<open>
  C8. \<^verbatim>\<open>_ensure_token\<close> returns True exactly when the cached token is not \<^verbatim>\<open>None\<close>
  afterwards, so it returns False only with the token cleared. With a token cached and
  \<open>renew\<close> false it returns True and leaves the client as it was: no request is sent.
  So a call that follows one that returned True reuses the token, whatever the vendor
  would answer.
\<close>

theorem ensure_token_invariant:
  "(fst (ensure_token w renew st) = (token (snd (ensure_token w renew st)) \<noteq> None))
   \<and> (token st \<noteq> None \<and> \<not> renew \<longrightarrow> ensure_token w renew st = (True, st))
   \<and> (fst (ensure_token w renew st) \<longrightarrow>
        ensure_token w' False (snd (ensure_token w renew st)) =
          (True, snd (ensure_token w renew st)))"
proof (intro conjI impI)
  show r: "fst (ensure_token w renew st) = (token (snd (ensure_token w renew st)) \<noteq> None)"
    by (auto simp add: ensure_token_def split: prod.splits option.splits)
  assume "fst (ensure_token w renew st)"
  with r have "token (snd (ensure_token w renew st)) \<noteq> None"
    by simp
  then show "ensure_token w' False (snd (ensure_token w renew st)) =
      (True, snd (ensure_token w renew st))"
    by (rule ensure_token_cached)
next
  assume "token st \<noteq> None \<and> \<not> renew"
  then show "ensure_token w renew st = (True, st)"
    by (simp add: ensure_token_cached)
qed

theorem ensure_token_invariant_witness:
  "token api0 \<noteq> None \<and> \<not> False \<and> ensure_token world_down False api0 = (True, api0)
   \<and> fst (ensure_token world_down True api0) = False
   \<and> token (snd (ensure_token world_down True api0)) = None
   \<and> fst (ensure_token world_up False api_fresh)
   \<and> ensure_token world_down False (snd (ensure_token world_up False api_fresh)) =
       (True, snd (ensure_token world_up False api_fresh))"
proof -
  have cached: "token api0 \<noteq> None"
    by (simp add: api0_def)
  have down: "fst (ensure_token world_down True api0) = False"
    by code_simp
  have up: "fst (ensure_token world_up False api_fresh)"
    by code_simp
  from cached down up
    ensure_token_invariant [of world_down False api0 world_down]
    ensure_token_invariant [of world_down True api0 world_down]
    ensure_token_invariant [of world_up False api_fresh world_down]
  show ?thesis
    by simp
qed

section \<open>The status sensor\<close>

text \<open>
  C5. The state of the status sensor is one of the four declared options. The vendor's
  codes for charging, waiting and offline give the first three; every other status, and a
  reading without status, gives Unknown.
\<close>

theorem sensor_state_options:
  "SemsSensor_state cd key \<in> set SemsSensor_attr_options
   \<and> SemsSensor_attr_options = [''Charging'', ''Standby'', ''Offline'', ''Unknown'']
   \<and> SemsSensor_state cd key =
       (let status = dict_get (reading_or_empty cd key) ''status'' in
        if status = JStr ''EVDetail_Status_Title_Charging'' then ''Charging''
        else if status = JStr ''EVDetail_Status_Title_Waiting'' then ''Standby''
        else if status = JStr ''EVDetail_Status_Title_Offline'' then ''Offline''
        else ''Unknown'')
   \<and> (map_of (reading_or_empty cd key) ''status'' = None \<longrightarrow> SemsSensor_state cd key = ''Unknown'')"
  by (simp add: SemsSensor_state_def SemsSensor_attr_options_def Let_def dict_get_def
      dict_get_default_def)

theorem sensor_state_options_witness:
  "map_of (reading_or_empty [(KStr ''WB1'', [(''sn'', JStr ''WB1'')])] (KStr ''WB1'')) ''status'' = None
   \<and> SemsSensor_state [(KStr ''WB1'', [(''sn'', JStr ''WB1'')])] (KStr ''WB1'') = ''Unknown''
   \<and> SemsSensor_state [(KStr ''WB1'', reading0)] (KStr ''WB1'') = ''Standby''"
  using sensor_state_options [of "[(KStr ''WB1'', [(''sn'', JStr ''WB1'')])]" "KStr ''WB1''"]
    sensor_state_options [of "[(KStr ''WB1'', reading0)]" "KStr ''WB1''"]
  by (simp add: reading_or_empty_def key_eq_def reading0_def dict_get_def dict_get_default_def)

section \<open>What one call of the client does\<close>

lemma posts_snoc [simp]:
  "posts (tr @ [Posted r]) = Suc (posts tr)" "posts (tr @ [TokenCleared]) = posts tr"
  by (simp_all add: posts_def)

lemma ensure_token_result:
  "fst (ensure_token w renew st) = (token (snd (ensure_token w renew st)) \<noteq> None)"
  by (auto simp add: ensure_token_def split: prod.splits option.splits)

lemma ensure_token_True: "ensure_token w renew st = (True, st1) \<Longrightarrow> token st1 \<noteq> None"
  using ensure_token_result [of w renew st] by simp

lemma ensure_token_renew:
  "ensure_token w True st =
     (case login_token (w (posts (trace st)) (login_request st)) of
        None \<Rightarrow> (False, st\<lparr>token := None, trace := trace st @ [Posted (login_request st)]\<rparr>)
      | Some t \<Rightarrow> (True, st\<lparr>token := Some t, trace := trace st @ [Posted (login_request st)]\<rparr>))"
  by (simp add: ensure_token_def fetch_login_token_def post_def split: option.split)

lemma ensure_token_trace:
  "\<exists>rest. trace (snd (ensure_token w renew st)) = trace st @ rest"
  by (simp add: ensure_token_def fetch_login_token_def post_def split: option.split)

lemma build_headers_cached:
  "token st \<noteq> None \<Longrightarrow> build_headers w st = (Inr (Dumps (token st)), st)"
  by (simp add: build_headers_def ensure_token_cached)

lemma getData_neg: "n < 0 \<Longrightarrow> getData use_v4 repr w wsn renew n st = (Inl OutOfRetries, st)"
  by (subst getData.simps) simp

lemma getData_no_token:
  "0 \<le> n \<Longrightarrow> ensure_token w renew st = (False, st1)
   \<Longrightarrow> getData use_v4 repr w wsn renew n st = (Inr JNull, st1)"
  by (subst getData.simps) simp

lemma getData_step:
  assumes "0 \<le> n" and "ensure_token w renew st = (True, st1)"
  shows "getData use_v4 repr w wsn renew n st =
     (case read_status use_v4 repr w (Dumps (token st1)) (JObj [(''sn'', wsn)]) st1 of
        (Inl e, st3) \<Rightarrow> (getData_except e, st3)
      | (Inr (data, msg), st3) \<Rightarrow>
          if data = JNull \<and> authorization_expired msg
          then getData use_v4 repr w wsn True (n - 1) (clear_token st3)
          else if data = JNull then (Inr JNull, st3)
          else (Inr data, st3))"
proof -
  have tok: "token st1 \<noteq> None"
    using assms(2) by (rule ensure_token_True)
  have nn: "\<not> n < 0"
    using assms(1) by simp
  show ?thesis
    by (subst getData.simps) (simp add: nn assms(2) build_headers_cached [OF tok])
qed

text \<open>What read_status makes of the answer while the v3 endpoint is in use.\<close>

lemma read_status_v3:
  "read_status False repr w headers payload st =
     (let req = \<lparr>url = WallboxURL_V3, token_hdr = headers, body = payload\<rparr>;
          st1 = st\<lparr>trace := trace st @ [Posted req]\<rparr>
      in case checked_json (w (posts (trace st)) req) of
           Inl e \<Rightarrow> (Inl e, st1)
         | Inr (JObj j) \<Rightarrow>
             (Inr (dict_get j ''data'', py_str repr (dict_get_default j ''msg'' (JStr []))), st1)
         | Inr _ \<Rightarrow> (Inl AttributeError, st1))"
  by (simp add: read_status_def request_status_def resolve_status_url_def post_def Let_def
      split: sum.split exc.split json.split)

lemma fst_command_except [simp]: "fst (command_except r) = Inr ()"
  by (cases r) (simp add: command_except_def split: sum.splits)

lemma send_command_returns [simp]: "fst (send_command repr w u d renew n st) = Inr ()"
  by (subst send_command.simps) (rule fst_command_except)

lemma command_except_id: "fst r = Inr () \<Longrightarrow> command_except r = r"
  by (cases r) (auto simp add: command_except_def split: sum.splits)

lemma send_command_neg: "n < 0 \<Longrightarrow> send_command repr w u d renew n st = (Inr (), st)"
  by (subst send_command.simps) (simp add: command_except_def)

lemma send_command_no_token:
  "0 \<le> n \<Longrightarrow> ensure_token w renew st = (False, st1)
   \<Longrightarrow> send_command repr w u d renew n st = (Inr (), st1)"
  by (subst send_command.simps) (simp add: command_except_def)

lemma send_command_step:
  assumes "0 \<le> n" and "ensure_token w renew st = (True, st1)"
  shows "send_command repr w u d renew n st =
     (let req = \<lparr>url = u, token_hdr = Dumps (token st1), body = d\<rparr>;
          st3 = st1\<lparr>trace := trace st1 @ [Posted req]\<rparr>
      in case w (posts (trace st1)) req of
           NetworkError \<Rightarrow> (Inr (), st3)
         | Response status_code resp_json \<Rightarrow>
             if (status_code \<noteq> 200 \<or> (resp_no_data resp_json \<and> resp_expired repr resp_json))
                \<and> resp_expired repr resp_json \<and> 0 < n
             then send_command repr w u d True (n - 1) (clear_token st3)
             else (Inr (), st3))"
proof -
  have tok: "token st1 \<noteq> None"
    using assms(2) by (rule ensure_token_True)
  have nn: "\<not> n < 0"
    using assms(1) by simp
  show ?thesis
    apply (subst send_command.simps)
    apply (simp add: nn assms(2) build_headers_cached [OF tok] post_def Let_def command_except_id
        split: http_result.split)
    apply (simp add: command_except_def)
    done
qed

text \<open>A command adds to the trace, and with a token cached its request comes first.\<close>

lemma send_command_trace:
  "\<exists>rest. trace (snd (send_command repr w u d renew n st)) = trace st @ rest"
proof (induction "nat (n + 1)" arbitrary: n renew st)
  case 0
  then have "n < 0" by simp
  then show ?case by (simp add: send_command_neg)
next
  case (Suc k)
  then have n: "0 \<le> n" and k: "k = nat (n - 1 + 1)" by simp_all
  obtain ok st1 where e: "ensure_token w renew st = (ok, st1)"
    by (cases "ensure_token w renew st")
  obtain r1 where r1: "trace st1 = trace st @ r1"
    using ensure_token_trace [of w renew st] e by auto
  show ?case
  proof (cases ok)
    case False
    with n e r1 show ?thesis by (simp add: send_command_no_token)
  next
    case True
    let ?req = "\<lparr>url = u, token_hdr = Dumps (token st1), body = d\<rparr>"
    let ?st3 = "st1\<lparr>trace := trace st1 @ [Posted ?req]\<rparr>"
    from Suc.hyps(1) [OF k, of True "clear_token ?st3"]
    obtain r2 where r2: "trace (snd (send_command repr w u d True (n - 1) (clear_token ?st3))) =
        trace st @ r1 @ [Posted ?req, TokenCleared] @ r2"
      by (auto simp add: clear_token_def r1)
    from True e have step: "send_command repr w u d renew n st =
     (case w (posts (trace st1)) ?req of
           NetworkError \<Rightarrow> (Inr (), ?st3)
         | Response status_code resp_json \<Rightarrow>
             if (status_code \<noteq> 200 \<or> (resp_no_data resp_json \<and> resp_expired repr resp_json))
                \<and> resp_expired repr resp_json \<and> 0 < n
             then send_command repr w u d True (n - 1) (clear_token ?st3)
             else (Inr (), ?st3))"
      using send_command_step [OF n, of w renew st st1 repr u d] by (simp add: Let_def)
    show ?thesis
      unfolding step using r1 r2 by (simp split: http_result.split)
  qed
qed

lemma send_command_first_request:
  assumes "token st \<noteq> None" and "0 \<le> n"
  shows "\<exists>rest. trace (snd (send_command repr w u d False n st)) =
           trace st @ Posted \<lparr>url = u, token_hdr = Dumps (token st), body = d\<rparr> # rest"
proof -
  let ?req = "\<lparr>url = u, token_hdr = Dumps (token st), body = d\<rparr>"
  let ?st3 = "st\<lparr>trace := trace st @ [Posted ?req]\<rparr>"
  obtain r2 where r2: "trace (snd (send_command repr w u d True (n - 1) (clear_token ?st3))) =
        trace st @ [Posted ?req, TokenCleared] @ r2"
    using send_command_trace [of repr w u d True "n - 1" "clear_token ?st3"]
    by (auto simp add: clear_token_def)
  have step: "send_command repr w u d False n st =
     (case w (posts (trace st)) ?req of
           NetworkError \<Rightarrow> (Inr (), ?st3)
         | Response status_code resp_json \<Rightarrow>
             if (status_code \<noteq> 200 \<or> (resp_no_data resp_json \<and> resp_expired repr resp_json))
                \<and> resp_expired repr resp_json \<and> 0 < n
             then send_command repr w u d True (n - 1) (clear_token ?st3)
             else (Inr (), ?st3))"
    using send_command_step [OF assms(2) ensure_token_cached [OF assms(1)], of repr w u d]
    by (simp add: Let_def)
  show ?thesis
    unfolding step using r2 by (simp split: http_result.split)
qed

section \<open>One reading per serial number\<close>

lemma update_success:
  assumes "async_update_data use_v4 repr w station_id st = (Inr d, st')"
  shows "\<exists>reading key. getData use_v4 repr w (JStr station_id) False 1 st = (Inr (JObj reading), st')
         \<and> truthy (dict_get reading ''sn'')
         \<and> key_of (dict_get reading ''sn'') = Some key
         \<and> d = [(key, reading)]"
proof (cases "getData use_v4 repr w (JStr station_id) False 1 st")
  case (Pair r st1)
  with assms show ?thesis
    by (cases r) (auto simp add: async_update_data_def Let_def
        split: exc.splits json.splits if_splits option.splits)
qed

lemma update_missing_sn:
  assumes "fst (getData use_v4 repr w (JStr station_id) False 1 st) = Inr (JObj reading)"
    and "\<not> truthy (dict_get reading ''sn'')"
  shows "fst (async_update_data use_v4 repr w station_id st) = Inl (UpdateFailed MissingSn)"
  using assms by (cases "getData use_v4 repr w (JStr station_id) False 1 st")
    (simp add: async_update_data_def)

text \<open>
  C4. A successful update returns a dictionary with one key, the \<^verbatim>\<open>sn\<close> of the reading
  that getData fetched (as the key that this value is), mapped to that whole reading;
  nothing of an earlier reading enters it. A reading whose \<^verbatim>\<open>sn\<close> is missing or empty
  is not returned: the update fails.
\<close>

theorem update_one_reading_per_serial:
  "(async_update_data use_v4 repr w station_id st = (Inr d, st') \<longrightarrow>
      (\<exists>reading key.
         getData use_v4 repr w (JStr station_id) False 1 st = (Inr (JObj reading), st')
         \<and> truthy (dict_get reading ''sn'')
         \<and> key_of (dict_get reading ''sn'') = Some key
         \<and> d = [(key, reading)]))
   \<and> (fst (getData use_v4 repr w (JStr station_id) False 1 st) = Inr (JObj reading)
        \<and> (map_of reading ''sn'' = None \<or> map_of reading ''sn'' = Some (JStr []))
      \<longrightarrow> fst (async_update_data use_v4 repr w station_id st) = Inl (UpdateFailed MissingSn))"
proof (intro conjI impI)
  assume "async_update_data use_v4 repr w station_id st = (Inr d, st')"
  then show "\<exists>reading key.
         getData use_v4 repr w (JStr station_id) False 1 st = (Inr (JObj reading), st')
         \<and> truthy (dict_get reading ''sn'')
         \<and> key_of (dict_get reading ''sn'') = Some key
         \<and> d = [(key, reading)]"
    by (rule update_success)
next
  assume a: "fst (getData use_v4 repr w (JStr station_id) False 1 st) = Inr (JObj reading)
        \<and> (map_of reading ''sn'' = None \<or> map_of reading ''sn'' = Some (JStr []))"
  then have "\<not> truthy (dict_get reading ''sn'')"
    by (auto simp add: dict_get_def dict_get_default_def)
  with a show "fst (async_update_data use_v4 repr w station_id st) = Inl (UpdateFailed MissingSn)"
    by (simp add: update_missing_sn)
qed

theorem update_one_reading_per_serial_witness:
  "async_update_data USE_V4_STATUS repr0 world_up ''WB1'' api0 =
     (Inr [(KStr ''WB1'', reading0)],
      snd (getData USE_V4_STATUS repr0 world_up (JStr ''WB1'') False 1 api0))
   \<and> fst (getData USE_V4_STATUS repr0 world_no_sn (JStr ''WB1'') False 1 api0) =
       Inr (JObj [(''status'', JStr ''EVDetail_Status_Title_Waiting'')])
   \<and> map_of [(''status'', JStr ''EVDetail_Status_Title_Waiting'')] ''sn'' = None
   \<and> fst (async_update_data USE_V4_STATUS repr0 world_no_sn ''WB1'' api0) =
       Inl (UpdateFailed MissingSn)"
proof -
  have a: "async_update_data USE_V4_STATUS repr0 world_up ''WB1'' api0 =
     (Inr [(KStr ''WB1'', reading0)],
      snd (getData USE_V4_STATUS repr0 world_up (JStr ''WB1'') False 1 api0))"
    by code_simp
  have b: "fst (getData USE_V4_STATUS repr0 world_no_sn (JStr ''WB1'') False 1 api0) =
       Inr (JObj [(''status'', JStr ''EVDetail_Status_Title_Waiting'')])"
    by code_simp
  from a b
    update_one_reading_per_serial [of USE_V4_STATUS repr0 world_up "''WB1''" api0
      "[(KStr ''WB1'', reading0)]"
      "snd (getData USE_V4_STATUS repr0 world_up (JStr ''WB1'') False 1 api0)"]
    update_one_reading_per_serial [of USE_V4_STATUS repr0 world_no_sn "''WB1''" api0 _ _
      "[(''status'', JStr ''EVDetail_Status_Title_Waiting'')]"]
  show ?thesis by simp
qed

section \<open>The charge mode\<close>

lemma OPTION_TO_MODE_eq:
  "OPTION_TO_MODE = [(''Fast'', 0), (''PV priority'', 1), (''PV & battery'', 2)]"
  by (simp add: OPTION_TO_MODE_def MODE_TO_OPTION_def)

lemma option_mode_inverse:
  "(map_of OPTION_TO_MODE opt = Some m) = (map_of MODE_TO_OPTION m = Some opt)"
  by (auto simp add: OPTION_TO_MODE_eq MODE_TO_OPTION_def split: if_splits)

lemma dom_OPTION_TO_MODE:
  "dom (map_of OPTION_TO_MODE) = {''Fast'', ''PV priority'', ''PV & battery''}"
  by (auto simp add: OPTION_TO_MODE_eq split: if_splits)

lemma set_supported_options:
  "set supported_options = {''Fast'', ''PV priority'', ''PV & battery''}"
  by (auto simp add: supported_options_def MODE_TO_OPTION_def)

text \<open>
  C6. The mode-to-option table is a bijection between the modes 0, 1, 2 and the three
  labels, and the option-to-mode table is its inverse. For a label of the options list
  async_select_option shows the label and calls set_charge_mode with the mode of that
  label; with a token cached the SetChargeMode request with that mode as its \<^verbatim>\<open>type\<close>
  is the next request sent. For any other label it changes neither the entity nor the
  client, so nothing is sent.
\<close>

theorem charge_mode_bijection:
  "bij_betw (\<lambda>m. the (map_of MODE_TO_OPTION m)) {0, 1, 2}
     {''Fast'', ''PV priority'', ''PV & battery''}
   \<and> dom (map_of MODE_TO_OPTION) = {0, 1, 2}
   \<and> (\<forall>m opt. (map_of OPTION_TO_MODE opt = Some m) = (map_of MODE_TO_OPTION m = Some opt))
   \<and> (\<forall>opt \<in> set supported_options. \<exists>m.
         map_of MODE_TO_OPTION m = Some opt
         \<and> async_select_option repr w opt (ent, api) =
             (ent\<lparr>attr_current_option := opt\<rparr>,
              snd (set_charge_mode repr w (json_of_key (sn ent)) (JNum (of_int m))
                     (current_charge_power ent) False 1 api))
         \<and> (token api \<noteq> None \<longrightarrow>
              (\<exists>rest. trace (snd (async_select_option repr w opt (ent, api))) =
                 trace api @
                 Posted (set_charge_mode_request (token api) (json_of_key (sn ent))
                           (JNum (of_int m)) (current_charge_power ent)) # rest)))
   \<and> (\<forall>opt. opt \<notin> set supported_options \<longrightarrow>
         async_select_option repr w opt (ent, api) = (ent, api)
         \<and> trace (snd (async_select_option repr w opt (ent, api))) = trace api)"
proof (intro conjI)
  show "bij_betw (\<lambda>m. the (map_of MODE_TO_OPTION m)) {0, 1, 2}
          {''Fast'', ''PV priority'', ''PV & battery''}"
    by (simp add: bij_betw_def MODE_TO_OPTION_def)
  show "dom (map_of MODE_TO_OPTION) = {0, 1, 2}"
    by (auto simp add: MODE_TO_OPTION_def split: if_splits)
  show "\<forall>m opt. (map_of OPTION_TO_MODE opt = Some m) = (map_of MODE_TO_OPTION m = Some opt)"
    by (simp add: option_mode_inverse)
  show "\<forall>opt \<in> set supported_options. \<exists>m.
          map_of MODE_TO_OPTION m = Some opt
          \<and> async_select_option repr w opt (ent, api) =
              (ent\<lparr>attr_current_option := opt\<rparr>,
               snd (set_charge_mode repr w (json_of_key (sn ent)) (JNum (of_int m))
                      (current_charge_power ent) False 1 api))
          \<and> (token api \<noteq> None \<longrightarrow>
               (\<exists>rest. trace (snd (async_select_option repr w opt (ent, api))) =
                  trace api @
                  Posted (set_charge_mode_request (token api) (json_of_key (sn ent))
                            (JNum (of_int m)) (current_charge_power ent)) # rest))"
  proof
    fix opt
    assume "opt \<in> set supported_options"
    then have "opt \<in> dom (map_of OPTION_TO_MODE)"
      by (simp add: set_supported_options dom_OPTION_TO_MODE)
    then obtain m where m: "map_of OPTION_TO_MODE opt = Some m"
      by blast
    then have inv: "map_of MODE_TO_OPTION m = Some opt"
      by (simp add: option_mode_inverse)
    from m have call: "async_select_option repr w opt (ent, api) =
              (ent\<lparr>attr_current_option := opt\<rparr>,
               snd (set_charge_mode repr w (json_of_key (sn ent)) (JNum (of_int m))
                      (current_charge_power ent) False 1 api))"
      by (simp add: async_select_option_def)
    have sent: "token api \<noteq> None \<longrightarrow>
               (\<exists>rest. trace (snd (async_select_option repr w opt (ent, api))) =
                  trace api @
                  Posted (set_charge_mode_request (token api) (json_of_key (sn ent))
                            (JNum (of_int m)) (current_charge_power ent)) # rest)"
      unfolding call
      by (simp add: set_charge_mode_def set_charge_mode_request_def send_command_first_request)
    from inv call sent show "\<exists>m. map_of MODE_TO_OPTION m = Some opt
          \<and> async_select_option repr w opt (ent, api) =
              (ent\<lparr>attr_current_option := opt\<rparr>,
               snd (set_charge_mode repr w (json_of_key (sn ent)) (JNum (of_int m))
                      (current_charge_power ent) False 1 api))
          \<and> (token api \<noteq> None \<longrightarrow>
               (\<exists>rest. trace (snd (async_select_option repr w opt (ent, api))) =
                  trace api @
                  Posted (set_charge_mode_request (token api) (json_of_key (sn ent))
                            (JNum (of_int m)) (current_charge_power ent)) # rest))"
      by blast
  qed
  show "\<forall>opt. opt \<notin> set supported_options \<longrightarrow>
          async_select_option repr w opt (ent, api) = (ent, api)
          \<and> trace (snd (async_select_option repr w opt (ent, api))) = trace api"
  proof (intro allI impI)
    fix opt
    assume "opt \<notin> set supported_options"
    then have "opt \<notin> dom (map_of OPTION_TO_MODE)"
      by (simp add: set_supported_options dom_OPTION_TO_MODE)
    then have "map_of OPTION_TO_MODE opt = None"
      by blast
    then show "async_select_option repr w opt (ent, api) = (ent, api)
          \<and> trace (snd (async_select_option repr w opt (ent, api))) = trace api"
      by (simp add: async_select_option_def)
  qed
qed

theorem charge_mode_bijection_witness:
  "''PV priority'' \<in> set supported_options \<and> token api0 \<noteq> None
   \<and> async_select_option repr0 world_up ''PV priority'' (select0, api0) =
       (select0\<lparr>attr_current_option := ''PV priority''\<rparr>,
        snd (set_charge_mode repr0 world_up (JStr ''WB1'') (JNum 1) (JNum 11) False 1 api0))
   \<and> (\<exists>rest. trace (snd (async_select_option repr0 world_up ''PV priority'' (select0, api0))) =
         Posted \<lparr>url = SetChargeModeURL, token_hdr = Dumps (Some [(''uid'', JStr ''u1'')]),
                 body = JObj [(''sn'', JStr ''WB1''), (''type'', JNum 1),
                              (''charge_power'', JNum 11)]\<rparr> # rest)
   \<and> ''Eco'' \<notin> set supported_options
   \<and> async_select_option repr0 world_up ''Eco'' (select0, api0) = (select0, api0)
   \<and> trace (snd (async_select_option repr0 world_up ''Eco'' (select0, api0))) = []"
proof -
  have a: "''PV priority'' \<in> set supported_options" and b: "''Eco'' \<notin> set supported_options"
    by (simp_all add: set_supported_options)
  have tok: "token api0 = Some [(''uid'', JStr ''u1'')]" and tr: "trace api0 = []"
    by (simp_all add: api0_def)
  from charge_mode_bijection [of repr0 world_up select0 api0] a b
  obtain m where m: "map_of MODE_TO_OPTION m = Some ''PV priority''"
    and sel: "async_select_option repr0 world_up ''PV priority'' (select0, api0) =
       (select0\<lparr>attr_current_option := ''PV priority''\<rparr>,
        snd (set_charge_mode repr0 world_up (json_of_key (sn select0)) (JNum (of_int m))
               (current_charge_power select0) False 1 api0))"
    and sent: "token api0 \<noteq> None \<longrightarrow>
       (\<exists>rest. trace (snd (async_select_option repr0 world_up ''PV priority'' (select0, api0))) =
          trace api0 @
          Posted (set_charge_mode_request (token api0) (json_of_key (sn select0))
                    (JNum (of_int m)) (current_charge_power select0)) # rest)"
    and out: "async_select_option repr0 world_up ''Eco'' (select0, api0) = (select0, api0)"
    and quiet: "trace (snd (async_select_option repr0 world_up ''Eco'' (select0, api0))) = trace api0"
    by blast
  from m have m1: "m = 1"
    by (simp add: MODE_TO_OPTION_def split: if_splits)
  from sel m1 have c: "async_select_option repr0 world_up ''PV priority'' (select0, api0) =
       (select0\<lparr>attr_current_option := ''PV priority''\<rparr>,
        snd (set_charge_mode repr0 world_up (JStr ''WB1'') (JNum 1) (JNum 11) False 1 api0))"
    by (simp add: select0_def)
  from sent m1 have d: "\<exists>rest.
      trace (snd (async_select_option repr0 world_up ''PV priority'' (select0, api0))) =
         Posted \<lparr>url = SetChargeModeURL, token_hdr = Dumps (Some [(''uid'', JStr ''u1'')]),
                 body = JObj [(''sn'', JStr ''WB1''), (''type'', JNum 1),
                              (''charge_power'', JNum 11)]\<rparr> # rest"
    by (simp add: tok tr select0_def set_charge_mode_request_def)
  from quiet have e: "trace (snd (async_select_option repr0 world_up ''Eco'' (select0, api0))) = []"
    by (simp add: tr)
  from a b c d e out show ?thesis
    by (simp add: tok)
qed

section \<open>The charge power\<close>



section \<open>The grace period of the switch\<close>

text \<open>The exponent that the search finds, and the rounding at a known exponent.\<close>

lemma float_exponent_from_eq:
  assumes "e0 \<le> e" and "nat (e - e0) \<le> k" and "2 powi e \<le> \<bar>x\<bar>" and "\<bar>x\<bar> < 2 powi (e + 1)"
  shows "float_exponent_from k e0 x = e"
  using assms
proof (induction k arbitrary: e0)
  case 0
  then show ?case by simp
next
  case (Suc k)
  show ?case
  proof (cases "e0 = e")
    case True
    with Suc.prems show ?thesis by simp
  next
    case False
    with Suc.prems have lt: "e0 + 1 \<le> e" by simp
    then have "(2::real) powi (e0 + 1) \<le> 2 powi e"
      by (intro power_int_increasing) simp_all
    with Suc.prems have "2 powi (e0 + 1) \<le> \<bar>x\<bar>" by simp
    moreover have "float_exponent_from k (e0 + 1) x = e"
      using lt Suc.prems by (intro Suc.IH) simp_all
    ultimately show ?thesis by simp
  qed
qed

lemma float_exponent_eq:
  assumes "- 1022 \<le> e" and "e \<le> 1023" and "2 powi e \<le> \<bar>x\<bar>" and "\<bar>x\<bar> < 2 powi (e + 1)"
  shows "float_exponent x = e"
  unfolding float_exponent_def using assms by (intro float_exponent_from_eq) simp_all

lemma round64_exponent:
  "float_exponent x = e \<Longrightarrow>
   round64 x = of_int (round_half_even (x / 2 powi (e - 52))) * 2 powi (e - 52)"
  by (simp add: round64_def float_ulp_def)

lemma round64_zero: "round64 0 = 0"
  by (simp add: round64_def round_half_even_def)

lemma float_overflow_zero: "\<not> float_overflow 0"
  by (simp add: float_overflow_def round64_zero)

lemma turn_on_record:
  "last_command_target (fst (async_turn_on repr w tc (ent, api))) = Some True"
  "last_command_ts (fst (async_turn_on repr w tc (ent, api))) = Some tc"
  "attr_is_on (fst (async_turn_on repr w tc (ent, api)))"
  "sn (fst (async_turn_on repr w tc (ent, api))) = sn ent"
  by (simp_all add: async_turn_on_def)

lemma turn_off_record:
  "last_command_target (fst (async_turn_off repr w tc (ent, api))) = Some False"
  "last_command_ts (fst (async_turn_off repr w tc (ent, api))) = Some tc"
  "\<not> attr_is_on (fst (async_turn_off repr w tc (ent, api)))"
  "sn (fst (async_turn_off repr w tc (ent, api))) = sn ent"
  by (simp_all add: async_turn_off_def)

lemma compute_grace_on:
  assumes "last_command_target e = Some True" and "last_command_ts e = Some tc"
    and "float_sub now tc < GRACE_ON_SECONDS" and "reported_power parse data = Inr p"
  shows "compute_is_on_from_data parse now data e =
     (Inr True, if reported_is_on data p
                then e\<lparr>last_command_target := None, last_command_ts := None\<rparr> else e)"
  using assms by (simp add: compute_is_on_from_data_def since_def Let_def)

lemma compute_grace_off:
  assumes "last_command_target e = Some False" and "last_command_ts e = Some tc"
    and "float_sub now tc < GRACE_OFF_SECONDS" and "reported_power parse data = Inr p"
  shows "compute_is_on_from_data parse now data e =
     (Inr False, if reported_is_on data p then e
                 else e\<lparr>last_command_target := None, last_command_ts := None\<rparr>)"
  using assms by (simp add: compute_is_on_from_data_def since_def Let_def)

lemma compute_agrees:
  assumes "reported_power parse data = Inr p"
    and "last_command_target e = Some (reported_is_on data p)"
  shows "compute_is_on_from_data parse now data e =
     (Inr (reported_is_on data p), e\<lparr>last_command_target := None, last_command_ts := None\<rparr>)"
  using assms by (auto simp add: compute_is_on_from_data_def since_def Let_def)

lemma compute_raises:
  "reported_power parse data = Inl x \<Longrightarrow> compute_is_on_from_data parse now data e = (Inl x, e)"
  by (simp add: compute_is_on_from_data_def)

lemma update_grace_on:
  assumes "last_command_target e = Some True" and "last_command_ts e = Some tc"
    and "float_sub now tc < GRACE_ON_SECONDS" and "attr_is_on e"
  shows "attr_is_on (snd (handle_coordinator_update parse now cd e))"
proof (cases "dict_lookup cd (sn e)")
  case None
  with assms show ?thesis by (simp add: handle_coordinator_update_def)
next
  case (Some data)
  show ?thesis
  proof (cases "reported_power parse data")
    case (Inl x)
    with Some assms show ?thesis
      by (simp add: handle_coordinator_update_def compute_raises)
  next
    case (Inr p)
    with Some assms show ?thesis
      by (simp add: handle_coordinator_update_def compute_grace_on [OF assms(1-3) Inr])
  qed
qed

lemma update_grace_off:
  assumes "last_command_target e = Some False" and "last_command_ts e = Some tc"
    and "float_sub now tc < GRACE_OFF_SECONDS" and "\<not> attr_is_on e"
  shows "\<not> attr_is_on (snd (handle_coordinator_update parse now cd e))"
proof (cases "dict_lookup cd (sn e)")
  case None
  with assms show ?thesis by (simp add: handle_coordinator_update_def)
next
  case (Some data)
  show ?thesis
  proof (cases "reported_power parse data")
    case (Inl x)
    with Some assms show ?thesis
      by (simp add: handle_coordinator_update_def compute_raises)
  next
    case (Inr p)
    with Some assms show ?thesis
      by (simp add: handle_coordinator_update_def compute_grace_off [OF assms(1-3) Inr])
  qed
qed

lemma compute_past_grace:
  assumes "last_command_target e = Some True" and "last_command_ts e = Some tc"
    and "\<not> float_sub now tc < GRACE_ON_SECONDS" and "reported_power parse data = Inr p"
    and "\<not> reported_is_on data p"
  shows "compute_is_on_from_data parse now data e = (Inr False, e)"
  using assms by (simp add: compute_is_on_from_data_def since_def Let_def)

lemma update_reports:
  assumes "dict_lookup cd (sn e) = Some data"
    and "compute_is_on_from_data parse now data e = (Inr b, e')"
  shows "attr_is_on (snd (handle_coordinator_update parse now cd e)) = b"
  using assms by (simp add: handle_coordinator_update_def)

text \<open>
  C10, as amended. While the difference between the clock's reading at the update and
  its reading at a turn-on command, as the floats give it, is less than 130, the computed
  state is True whatever the reading says; if the reading does not say on, the record of
  the command is kept. While that difference after a turn-off command is less than 130,
  the computed state is False, and the record is kept while the reading says on. When the
  reading agrees with the target of the last command, the state of the reading is returned
  and the record is cleared, and with no record the state of the reading is returned. The
  first two hold as well for \<^verbatim>\<open>_attr_is_on\<close> after \<^verbatim>\<open>_handle_coordinator_update\<close>, also
  when the update raises.
\<close>

theorem switch_grace_period:
  "GRACE_ON_SECONDS = 130 \<and> GRACE_OFF_SECONDS = 130
   \<and> (float_sub now tc < GRACE_ON_SECONDS \<and> reported_power parse data = Inr p \<longrightarrow>
        fst (compute_is_on_from_data parse now data (fst (async_turn_on repr w tc (ent, api)))) =
          Inr True)
   \<and> (float_sub now tc < GRACE_ON_SECONDS \<and> reported_power parse data = Inr p
        \<and> \<not> reported_is_on data p \<longrightarrow>
        compute_is_on_from_data parse now data (fst (async_turn_on repr w tc (ent, api))) =
          (Inr True, fst (async_turn_on repr w tc (ent, api))))
   \<and> (float_sub now tc < GRACE_OFF_SECONDS \<and> reported_power parse data = Inr p \<longrightarrow>
        fst (compute_is_on_from_data parse now data (fst (async_turn_off repr w tc (ent, api)))) =
          Inr False)
   \<and> (float_sub now tc < GRACE_OFF_SECONDS \<and> reported_power parse data = Inr p
        \<and> reported_is_on data p \<longrightarrow>
        compute_is_on_from_data parse now data (fst (async_turn_off repr w tc (ent, api))) =
          (Inr False, fst (async_turn_off repr w tc (ent, api))))
   \<and> (reported_power parse data = Inr p
        \<and> last_command_target e = Some (reported_is_on data p) \<longrightarrow>
        compute_is_on_from_data parse now data e =
          (Inr (reported_is_on data p),
           e\<lparr>last_command_target := None, last_command_ts := None\<rparr>))
   \<and> (reported_power parse data = Inr p \<and> last_command_target e = None \<longrightarrow>
        compute_is_on_from_data parse now data e = (Inr (reported_is_on data p), e))
   \<and> (float_sub now tc < GRACE_ON_SECONDS \<longrightarrow>
        attr_is_on (snd (handle_coordinator_update parse now cd
                           (fst (async_turn_on repr w tc (ent, api))))))
   \<and> (float_sub now tc < GRACE_OFF_SECONDS \<longrightarrow>
        \<not> attr_is_on (snd (handle_coordinator_update parse now cd
                             (fst (async_turn_off repr w tc (ent, api))))))"
proof (intro conjI impI)
  show "GRACE_ON_SECONDS = 130" "GRACE_OFF_SECONDS = 130"
    by (simp_all add: GRACE_ON_SECONDS_def GRACE_OFF_SECONDS_def)
next
  assume "float_sub now tc < GRACE_ON_SECONDS \<and> reported_power parse data = Inr p"
  then show "fst (compute_is_on_from_data parse now data
                    (fst (async_turn_on repr w tc (ent, api)))) = Inr True"
    by (simp add: compute_grace_on [OF turn_on_record(1,2)])
next
  assume "float_sub now tc < GRACE_ON_SECONDS \<and> reported_power parse data = Inr p
        \<and> \<not> reported_is_on data p"
  then show "compute_is_on_from_data parse now data (fst (async_turn_on repr w tc (ent, api))) =
          (Inr True, fst (async_turn_on repr w tc (ent, api)))"
    by (simp add: compute_grace_on [OF turn_on_record(1,2)])
next
  assume "float_sub now tc < GRACE_OFF_SECONDS \<and> reported_power parse data = Inr p"
  then show "fst (compute_is_on_from_data parse now data
                    (fst (async_turn_off repr w tc (ent, api)))) = Inr False"
    by (simp add: compute_grace_off [OF turn_off_record(1,2)])
next
  assume "float_sub now tc < GRACE_OFF_SECONDS \<and> reported_power parse data = Inr p
        \<and> reported_is_on data p"
  then show "compute_is_on_from_data parse now data (fst (async_turn_off repr w tc (ent, api))) =
          (Inr False, fst (async_turn_off repr w tc (ent, api)))"
    by (simp add: compute_grace_off [OF turn_off_record(1,2)])
next
  assume "reported_power parse data = Inr p
        \<and> last_command_target e = Some (reported_is_on data p)"
  then show "compute_is_on_from_data parse now data e =
          (Inr (reported_is_on data p),
           e\<lparr>last_command_target := None, last_command_ts := None\<rparr>)"
    by (simp add: compute_agrees)
next
  assume "reported_power parse data = Inr p \<and> last_command_target e = None"
  then show "compute_is_on_from_data parse now data e = (Inr (reported_is_on data p), e)"
    by (simp add: compute_is_on_from_data_def Let_def)
next
  assume "float_sub now tc < GRACE_ON_SECONDS"
  then show "attr_is_on (snd (handle_coordinator_update parse now cd
                           (fst (async_turn_on repr w tc (ent, api)))))"
    by (rule update_grace_on [OF turn_on_record(1,2) _ turn_on_record(3)])
next
  assume "float_sub now tc < GRACE_OFF_SECONDS"
  then show "\<not> attr_is_on (snd (handle_coordinator_update parse now cd
                             (fst (async_turn_off repr w tc (ent, api)))))"
    by (rule update_grace_off [OF turn_off_record(1,2) _ turn_off_record(3)])
qed

lemma power_reading0: "reported_power parse0 reading0 = Inr 0"
  by (simp add: reported_power_def reading0_def dict_get_default_def py_float_def
      round64_zero float_overflow_zero)

lemma reading0_off: "\<not> reported_is_on reading0 0"
  by (simp add: reported_is_on_def reading0_def dict_get_def dict_get_default_def)

lemma float_sub_100: "float_sub 100 0 = 100"
proof -
  have e: "float_exponent (100 - 0) = 6"
    by (rule float_exponent_eq) simp_all
  have "round64 (100 - 0) = of_int (round_half_even ((100 - 0) / 2 powi (6 - 52))) * 2 powi (6 - 52)"
    using e by (rule round64_exponent)
  also have "\<dots> = 100"
    by (simp add: round_half_even_def Let_def)
  finally show ?thesis
    by (simp add: float_sub_def)
qed

text \<open>
  The clock's readings 130 and \<open>2 ^ -50\<close> are floats, and the nearest float to their
  difference is 130.
\<close>

lemma float_130: "round64 130 = 130"
proof -
  have e: "float_exponent 130 = 7"
    by (rule float_exponent_eq) simp_all
  have "round64 130 = of_int (round_half_even (130 / 2 powi (7 - 52))) * 2 powi (7 - 52)"
    using e by (rule round64_exponent)
  also have "\<dots> = 130"
    by (simp add: round_half_even_def Let_def)
  finally show ?thesis .
qed

lemma float_2_50: "round64 (1 / 2 ^ 50) = 1 / 2 ^ 50"
proof -
  have e: "float_exponent (1 / 2 ^ 50) = - 50"
    by (rule float_exponent_eq) simp_all
  have "round64 (1 / 2 ^ 50) =
      of_int (round_half_even (1 / 2 ^ 50 / 2 powi (- 50 - 52))) * 2 powi (- 50 - 52)"
    using e by (rule round64_exponent)
  also have "\<dots> = 1 / 2 ^ 50"
    by (simp add: round_half_even_def Let_def)
  finally show ?thesis .
qed

lemma float_sub_130: "float_sub 130 (1 / 2 ^ 50) = 130"
proof -
  have e: "float_exponent (130 - 1 / 2 ^ 50) = 7"
    by (rule float_exponent_eq) simp_all
  have "round64 (130 - 1 / 2 ^ 50) =
      of_int (round_half_even ((130 - 1 / 2 ^ 50) / 2 powi (7 - 52))) * 2 powi (7 - 52)"
    using e by (rule round64_exponent)
  also have "\<dots> = 130"
    by (simp add: round_half_even_def Let_def)
  finally show ?thesis
    by (simp add: float_sub_def)
qed

text \<open>
  C10 as stated fails at the end of the period. A turn-on command at the clock's reading
  \<open>2 ^ -50\<close> and an update at the reading 130 are less than 130 seconds apart. The floats
  give 130 for the difference, which is not less than 130, so the state of the reading is
  computed, False, and \<^verbatim>\<open>_attr_is_on\<close> is False after the update.
\<close>

theorem switch_grace_period_counterexample:
  "round64 130 = 130 \<and> round64 (1 / 2 ^ 50) = 1 / 2 ^ 50
   \<and> (130 :: real) - 1 / 2 ^ 50 < GRACE_ON_SECONDS
   \<and> float_sub 130 (1 / 2 ^ 50) = 130
   \<and> reported_power parse0 reading0 = Inr 0 \<and> \<not> reported_is_on reading0 0
   \<and> compute_is_on_from_data parse0 130 reading0
         (fst (async_turn_on repr0 world_down (1 / 2 ^ 50) (switch0, api0))) =
       (Inr False, fst (async_turn_on repr0 world_down (1 / 2 ^ 50) (switch0, api0)))
   \<and> \<not> attr_is_on (snd (handle_coordinator_update parse0 130 [(KStr ''WB1'', reading0)]
                          (fst (async_turn_on repr0 world_down (1 / 2 ^ 50) (switch0, api0)))))"
proof -
  have ns: "\<not> float_sub 130 (1 / 2 ^ 50) < GRACE_ON_SECONDS"
    unfolding float_sub_130 GRACE_ON_SECONDS_def by simp
  have c: "compute_is_on_from_data parse0 130 reading0
         (fst (async_turn_on repr0 world_down (1 / 2 ^ 50) (switch0, api0))) =
       (Inr False, fst (async_turn_on repr0 world_down (1 / 2 ^ 50) (switch0, api0)))"
    by (rule compute_past_grace [OF turn_on_record(1,2) ns power_reading0 reading0_off])
  have k: "dict_lookup [(KStr ''WB1'', reading0)]
             (sn (fst (async_turn_on repr0 world_down (1 / 2 ^ 50) (switch0, api0)))) =
           Some reading0"
    by (simp add: async_turn_on_def switch0_def key_eq_def)
  have u: "\<not> attr_is_on (snd (handle_coordinator_update parse0 130 [(KStr ''WB1'', reading0)]
                          (fst (async_turn_on repr0 world_down (1 / 2 ^ 50) (switch0, api0)))))"
    using update_reports [OF k c] by simp
  have g: "(130 :: real) - 1 / 2 ^ 50 < GRACE_ON_SECONDS"
    by (simp add: GRACE_ON_SECONDS_def)
  from float_130 float_2_50 g float_sub_130 power_reading0 reading0_off c u show ?thesis
    by (intro conjI)
qed

lemma power_reading_charging: "reported_power parse0 reading_charging = Inr 7.5"
  by (simp add: reported_power_def reading_charging_def dict_get_default_def py_float_def
      parse0_def)

theorem switch_grace_period_witness:
  "float_sub 100 0 < GRACE_ON_SECONDS \<and> float_sub 100 0 < GRACE_OFF_SECONDS
   \<and> reported_power parse0 reading0 = Inr 0 \<and> \<not> reported_is_on reading0 0
   \<and> compute_is_on_from_data parse0 100 reading0
         (fst (async_turn_on repr0 world_down 0 (switch0, api0))) =
       (Inr True, fst (async_turn_on repr0 world_down 0 (switch0, api0)))
   \<and> reported_power parse0 reading_charging = Inr 7.5 \<and> reported_is_on reading_charging 7.5
   \<and> compute_is_on_from_data parse0 100 reading_charging
         (fst (async_turn_off repr0 world_down 0 (switch0, api0))) =
       (Inr False, fst (async_turn_off repr0 world_down 0 (switch0, api0)))
   \<and> last_command_target (fst (async_turn_on repr0 world_down 0 (switch0, api0))) =
       Some (reported_is_on reading_charging 7.5)
   \<and> compute_is_on_from_data parse0 100 reading_charging
         (fst (async_turn_on repr0 world_down 0 (switch0, api0))) =
       (Inr True, (fst (async_turn_on repr0 world_down 0 (switch0, api0)))
                    \<lparr>last_command_target := None, last_command_ts := None\<rparr>)
   \<and> attr_is_on (snd (handle_coordinator_update parse0 100 [(KStr ''WB1'', reading0)]
                        (fst (async_turn_on repr0 world_down 0 (switch0, api0)))))
   \<and> \<not> attr_is_on (snd (handle_coordinator_update parse0 100 [(KStr ''WB1'', reading_charging)]
                          (fst (async_turn_off repr0 world_down 0 (switch0, api0)))))
   \<and> last_command_target switch0 = None
   \<and> compute_is_on_from_data parse0 100 reading0 switch0 = (Inr False, switch0)"
proof -
  have g: "float_sub 100 0 < GRACE_ON_SECONDS" "float_sub 100 0 < GRACE_OFF_SECONDS"
    by (simp_all add: float_sub_100 GRACE_ON_SECONDS_def GRACE_OFF_SECONDS_def)
  have off: "\<not> reported_is_on reading0 0"
    by (rule reading0_off)
  have on: "reported_is_on reading_charging 7.5"
    by (simp add: reported_is_on_def)
  have tg: "last_command_target (fst (async_turn_on repr0 world_down 0 (switch0, api0))) =
       Some (reported_is_on reading_charging 7.5)"
    using on by (simp add: async_turn_on_def)
  note on_waiting =
    switch_grace_period [where now = 100 and tc = 0 and parse = parse0 and data = reading0
      and p = 0 and repr = repr0 and w = world_down and ent = switch0 and api = api0
      and cd = "[(KStr ''WB1'', reading0)]"]
  note on_charging =
    switch_grace_period [where now = 100 and tc = 0 and parse = parse0 and data = reading_charging
      and p = "7.5" and repr = repr0 and w = world_down and ent = switch0 and api = api0
      and cd = "[(KStr ''WB1'', reading_charging)]"
      and e = "fst (async_turn_on repr0 world_down 0 (switch0, api0))"]
  have c1: "compute_is_on_from_data parse0 100 reading0
         (fst (async_turn_on repr0 world_down 0 (switch0, api0))) =
       (Inr True, fst (async_turn_on repr0 world_down 0 (switch0, api0)))"
    using on_waiting g off power_reading0 by blast
  have c2: "compute_is_on_from_data parse0 100 reading_charging
         (fst (async_turn_off repr0 world_down 0 (switch0, api0))) =
       (Inr False, fst (async_turn_off repr0 world_down 0 (switch0, api0)))"
    using on_charging g on power_reading_charging by blast
  have c3: "compute_is_on_from_data parse0 100 reading_charging
         (fst (async_turn_on repr0 world_down 0 (switch0, api0))) =
       (Inr (reported_is_on reading_charging 7.5),
        (fst (async_turn_on repr0 world_down 0 (switch0, api0)))
                    \<lparr>last_command_target := None, last_command_ts := None\<rparr>)"
    using on_charging tg power_reading_charging by blast
  have c4: "attr_is_on (snd (handle_coordinator_update parse0 100 [(KStr ''WB1'', reading0)]
                        (fst (async_turn_on repr0 world_down 0 (switch0, api0)))))"
    using on_waiting g by blast
  have c5: "\<not> attr_is_on (snd (handle_coordinator_update parse0 100
                          [(KStr ''WB1'', reading_charging)]
                          (fst (async_turn_off repr0 world_down 0 (switch0, api0)))))"
    using on_charging g by blast
  from c3 on have c3': "compute_is_on_from_data parse0 100 reading_charging
         (fst (async_turn_on repr0 world_down 0 (switch0, api0))) =
       (Inr True, (fst (async_turn_on repr0 world_down 0 (switch0, api0)))
                    \<lparr>last_command_target := None, last_command_ts := None\<rparr>)"
    by simp
  have none: "last_command_target switch0 = None"
    by (simp add: switch0_def)
  have "compute_is_on_from_data parse0 100 reading0 switch0 =
      (Inr (reported_is_on reading0 0), switch0)"
    using switch_grace_period [where parse = parse0 and data = reading0 and p = 0
        and e = switch0 and now = 100] power_reading0 none
    by blast
  with off have c6: "compute_is_on_from_data parse0 100 reading0 switch0 = (Inr False, switch0)"
    by simp
  show ?thesis
    using g off on tg power_reading0 power_reading_charging c1 c2 c3' c4 c5 none c6
    by (intro conjI)
qed

section \<open>One attempt of getData and of a command\<close>

lemma getData_except_checked [simp]:
  "checked_json r = Inl e \<Longrightarrow> getData_except e = Inr JNull"
  by (auto simp add: checked_json_def getData_except_def split: http_result.splits if_splits option.splits)

lemma getData_except_AttributeError [simp]: "getData_except AttributeError = Inr JNull"
  by (simp add: getData_except_def)

lemma getData_attempt:
  assumes "0 \<le> n" and "ensure_token w renew st = (True, st1)"
  shows "getData False repr w wsn renew n st =
     (let req = status_request False (token st1) wsn;
          r = w (posts (trace st1)) req;
          st3 = st1\<lparr>trace := trace st1 @ [Posted req]\<rparr>
      in if expired_status_answer repr r
         then getData False repr w wsn True (n - 1) (clear_token st3)
         else (Inr (status_result r), st3))"
proof -
  let ?req = "status_request False (token st1) wsn"
  let ?r = "w (posts (trace st1)) ?req"
  have req: "?req = \<lparr>url = WallboxURL_V3, token_hdr = Dumps (token st1), body = JObj [(''sn'', wsn)]\<rparr>"
    by (simp add: status_request_def resolve_status_url_def)
  show ?thesis
  proof (cases "checked_json ?r")
    case (Inl e)
    then show ?thesis
      unfolding getData_step [OF assms] read_status_v3 req [symmetric] Let_def
      by (simp add: expired_status_answer_def status_result_def)
  next
    case (Inr j)
    then show ?thesis
      unfolding getData_step [OF assms] read_status_v3 req [symmetric] Let_def
      by (cases j) (simp_all add: expired_status_answer_def status_result_def)
  qed
qed

lemma posts_simps [simp]:
  "posts [] = 0"
  "posts (Posted r # tr) = Suc (posts tr)"
  "posts (TokenCleared # tr) = posts tr"
  "posts (tr @ tr') = posts tr + posts tr'"
  by (simp_all add: posts_def)

lemma login_request_simps [simp]:
  "login_request (st\<lparr>trace := tr\<rparr>) = login_request st"
  "login_request (st\<lparr>token := tk\<rparr>) = login_request st"
  "login_request (clear_token st) = login_request st"
  by (simp_all add: login_request_def clear_token_def)

lemma getData_expired_retry:
  assumes e: "ensure_token w False st = (True, st1)"
    and x: "expired_status_answer repr
              (w (posts (trace st1)) (status_request False (token st1) wsn))"
  shows "getData False repr w wsn False 1 st =
     (let k = posts (trace st1);
          tr = trace st1 @ [Posted (status_request False (token st1) wsn), TokenCleared,
                            Posted (login_request st1)]
      in case login_token (w (Suc k) (login_request st1)) of
           None \<Rightarrow> (Inr JNull, st1\<lparr>token := None, trace := tr\<rparr>)
         | Some t \<Rightarrow>
             if expired_status_answer repr (w (Suc (Suc k)) (status_request False (Some t) wsn))
             then (Inl OutOfRetries,
                   st1\<lparr>token := None,
                       trace := tr @ [Posted (status_request False (Some t) wsn), TokenCleared]\<rparr>)
             else (Inr (status_result (w (Suc (Suc k)) (status_request False (Some t) wsn))),
                   st1\<lparr>token := Some t,
                       trace := tr @ [Posted (status_request False (Some t) wsn)]\<rparr>))"
proof -
  let ?req = "status_request False (token st1) wsn"
  let ?st3 = "st1\<lparr>trace := trace st1 @ [Posted ?req]\<rparr>"
  let ?k = "posts (trace st1)"
  have first: "getData False repr w wsn False 1 st =
      getData False repr w wsn True 0 (clear_token ?st3)"
    using getData_attempt [OF _ e, of 1 repr wsn] x by (simp add: Let_def)
  show ?thesis
  proof (cases "login_token (w (Suc ?k) (login_request st1))")
    case None
    then have "ensure_token w True (clear_token ?st3) =
        (False, st1\<lparr>token := None,
                    trace := trace st1 @ [Posted ?req, TokenCleared, Posted (login_request st1)]\<rparr>)"
      by (simp add: ensure_token_renew clear_token_def)
    from getData_no_token [OF _ this] first None show ?thesis
      by (simp add: Let_def)
  next
    case (Some t)
    let ?st1' = "st1\<lparr>token := Some t,
                    trace := trace st1 @ [Posted ?req, TokenCleared, Posted (login_request st1)]\<rparr>"
    from Some have e': "ensure_token w True (clear_token ?st3) = (True, ?st1')"
      by (simp add: ensure_token_renew clear_token_def)
    have neg: "getData False repr w wsn True (- 1) s = (Inl OutOfRetries, s)" for s
      by (simp add: getData_neg)
    from getData_attempt [OF _ e', of 0 repr wsn] first Some show ?thesis
      by (simp add: Let_def neg clear_token_def)
  qed
qed

lemma send_command_expired_retry:
  assumes e: "ensure_token w False st = (True, st1)"
    and x: "expired_command_answer repr
              (w (posts (trace st1)) \<lparr>url = u, token_hdr = Dumps (token st1), body = d\<rparr>)"
  shows "send_command repr w u d False 1 st =
     (let k = posts (trace st1);
          tr = trace st1 @ [Posted \<lparr>url = u, token_hdr = Dumps (token st1), body = d\<rparr>,
                            TokenCleared, Posted (login_request st1)]
      in case login_token (w (Suc k) (login_request st1)) of
           None \<Rightarrow> (Inr (), st1\<lparr>token := None, trace := tr\<rparr>)
         | Some t \<Rightarrow>
             (Inr (), st1\<lparr>token := Some t,
                          trace := tr @ [Posted \<lparr>url = u, token_hdr = Dumps (Some t), body = d\<rparr>]\<rparr>))"
proof -
  let ?req = "\<lparr>url = u, token_hdr = Dumps (token st1), body = d\<rparr>"
  let ?st3 = "st1\<lparr>trace := trace st1 @ [Posted ?req]\<rparr>"
  let ?k = "posts (trace st1)"
  from x obtain status_code resp_json
    where r: "w ?k ?req = Response status_code resp_json"
      and nd: "resp_no_data resp_json" and ex: "resp_expired repr resp_json"
    by (cases "w ?k ?req") (simp_all add: expired_command_answer_def)
  have first: "send_command repr w u d False 1 st =
      send_command repr w u d True 0 (clear_token ?st3)"
    using send_command_step [OF _ e, of 1 repr u d] by (simp add: Let_def r nd ex)
  show ?thesis
  proof (cases "login_token (w (Suc ?k) (login_request st1))")
    case None
    then have "ensure_token w True (clear_token ?st3) =
        (False, st1\<lparr>token := None,
                    trace := trace st1 @ [Posted ?req, TokenCleared, Posted (login_request st1)]\<rparr>)"
      by (simp add: ensure_token_renew clear_token_def)
    from send_command_no_token [OF _ this] first None show ?thesis
      by (simp add: Let_def)
  next
    case (Some t)
    let ?st1' = "st1\<lparr>token := Some t,
                    trace := trace st1 @ [Posted ?req, TokenCleared, Posted (login_request st1)]\<rparr>"
    from Some have e': "ensure_token w True (clear_token ?st3) = (True, ?st1')"
      by (simp add: ensure_token_renew clear_token_def)
    from send_command_step [OF _ e', of 0 repr u d] first Some show ?thesis
      by (simp add: Let_def split: http_result.splits)
  qed
qed

section \<open>The two endpoints\<close>

lemma endswith_V4 [simp]: "endswith WallboxURL_V4 ''GetEvChargerMoreView''"
  by (simp add: endswith_def WallboxURL_V4_def)

lemma request_status_v4:
  "request_status True w WallboxURL_V4 headers payload st =
     (let k = posts (trace st);
          v4 = \<lparr>url = WallboxURL_V4, token_hdr = headers, body = payload\<rparr>;
          v3 = \<lparr>url = WallboxURL_V3, token_hdr = headers, body = payload\<rparr>
      in if checked_json (w k v4) = Inl (HTTPError 404)
         then (checked_json (w (Suc k) v3), st\<lparr>trace := trace st @ [Posted v4, Posted v3]\<rparr>)
         else (checked_json (w k v4), st\<lparr>trace := trace st @ [Posted v4]\<rparr>))"
  by (simp add: request_status_def post_def Let_def split: sum.split exc.split)

text \<open>The part of read_status that follows the request: the answer read, and the second fallback.\<close>

lemma read_status_v4:
  "read_status True repr w headers payload st =
     (let (a, st1) = request_status True w WallboxURL_V4 headers payload st;
          v3 = \<lparr>url = WallboxURL_V3, token_hdr = headers, body = payload\<rparr>
      in case a of
           Inl e \<Rightarrow> (Inl e, st1)
         | Inr (JObj j) \<Rightarrow>
             if dict_get j ''data'' = JNull
                \<and> str_in success_msg (py_str repr (dict_get_default j ''msg'' (JStr [])))
             then (case checked_json (w (posts (trace st1)) v3) of
                     Inl e \<Rightarrow> (Inl e, st1\<lparr>trace := trace st1 @ [Posted v3]\<rparr>)
                   | Inr (JObj j3) \<Rightarrow>
                       (Inr (dict_get j3 ''data'',
                             py_str repr (dict_get_default j3 ''msg''
                               (JStr (py_str repr (dict_get_default j ''msg'' (JStr [])))))),
                        st1\<lparr>trace := trace st1 @ [Posted v3]\<rparr>)
                   | Inr _ \<Rightarrow> (Inl AttributeError, st1\<lparr>trace := trace st1 @ [Posted v3]\<rparr>))
             else (Inr (dict_get j ''data'', py_str repr (dict_get_default j ''msg'' (JStr []))), st1)
         | Inr _ \<Rightarrow> (Inl AttributeError, st1))"
  by (simp add: read_status_def resolve_status_url_def post_def Let_def
      split: prod.split sum.split json.split)

lemma read_status_trace:
  "\<exists>rest. trace (snd (read_status use_v4 repr w headers payload st)) =
     trace st @ Posted \<lparr>url = resolve_status_url use_v4, token_hdr = headers, body = payload\<rparr> # rest"
proof (cases use_v4)
  case False
  then show ?thesis
    by (simp add: read_status_v3 resolve_status_url_def Let_def split: sum.split json.split)
next
  case True
  then show ?thesis
    by (simp add: read_status_v4 request_status_v4 resolve_status_url_def Let_def
        split: sum.split json.split)
qed

lemma getData_after_read_status:
  assumes "0 \<le> n" and "ensure_token w renew st = (True, st1)"
    and ih: "\<And>s. \<exists>rest. trace (snd (getData use_v4 repr w wsn True (n - 1) s)) = trace s @ rest"
  shows "\<exists>rest. trace (snd (getData use_v4 repr w wsn renew n st)) =
     trace (snd (read_status use_v4 repr w (Dumps (token st1)) (JObj [(''sn'', wsn)]) st1)) @ rest"
proof (cases "read_status use_v4 repr w (Dumps (token st1)) (JObj [(''sn'', wsn)]) st1")
  case (Pair a st3)
  show ?thesis
  proof (cases a)
    case (Inl e)
    with Pair show ?thesis
      by (simp add: getData_step [OF assms(1,2)])
  next
    case (Inr dm)
    obtain rest where "trace (snd (getData use_v4 repr w wsn True (n - 1) (clear_token st3))) =
        trace st3 @ TokenCleared # rest"
      using ih [of "clear_token st3"] by (auto simp add: clear_token_def)
    with Pair Inr show ?thesis
      by (cases dm) (simp add: getData_step [OF assms(1,2)])
  qed
qed

lemma getData_trace:
  "\<exists>rest. trace (snd (getData use_v4 repr w wsn renew n st)) = trace st @ rest"
proof (induction "nat (n + 1)" arbitrary: n renew st)
  case 0
  then have "n < 0" by simp
  then show ?case by (simp add: getData_neg)
next
  case (Suc k)
  then have n: "0 \<le> n" and k: "k = nat (n - 1 + 1)" by simp_all
  obtain ok st1 where e: "ensure_token w renew st = (ok, st1)"
    by (cases "ensure_token w renew st")
  obtain r1 where r1: "trace st1 = trace st @ r1"
    using ensure_token_trace [of w renew st] e by auto
  show ?case
  proof (cases ok)
    case False
    with n e r1 show ?thesis by (simp add: getData_no_token)
  next
    case True
    obtain r2 where "trace (snd (read_status use_v4 repr w (Dumps (token st1)) (JObj [(''sn'', wsn)]) st1)) =
        trace st1 @ r2"
      using read_status_trace [of use_v4 repr w "Dumps (token st1)" "JObj [(''sn'', wsn)]" st1]
      by auto
    moreover obtain r3 where "trace (snd (getData use_v4 repr w wsn renew n st)) =
        trace (snd (read_status use_v4 repr w (Dumps (token st1)) (JObj [(''sn'', wsn)]) st1)) @ r3"
      using getData_after_read_status [OF n, of w renew st st1 use_v4 repr wsn]
        Suc.hyps(1) [OF k] e True by auto
    ultimately show ?thesis
      using r1 by simp
  qed
qed

lemma getData_first_request:
  assumes "0 \<le> n" and "ensure_token w renew st = (True, st1)"
  shows "\<exists>rest. trace (snd (getData use_v4 repr w wsn renew n st)) =
           trace st1 @ Posted (status_request use_v4 (token st1) wsn) # rest"
proof -
  obtain r2 where "trace (snd (read_status use_v4 repr w (Dumps (token st1)) (JObj [(''sn'', wsn)]) st1)) =
      trace st1 @ Posted (status_request use_v4 (token st1) wsn) # r2"
    using read_status_trace [of use_v4 repr w "Dumps (token st1)" "JObj [(''sn'', wsn)]" st1]
    by (auto simp add: status_request_def)
  moreover obtain r3 where "trace (snd (getData use_v4 repr w wsn renew n st)) =
      trace (snd (read_status use_v4 repr w (Dumps (token st1)) (JObj [(''sn'', wsn)]) st1)) @ r3"
    using getData_after_read_status [OF assms, of use_v4 repr wsn] getData_trace by blast
  ultimately show ?thesis by simp
qed

lemma read_status_fallback:
  assumes "v4_fallback_answer repr (w (posts (trace st)) (status_request True tok wsn))"
  shows "\<exists>rest. trace (snd (read_status True repr w (Dumps tok) (JObj [(''sn'', wsn)]) st)) =
     trace st @ Posted (status_request True tok wsn)
       # Posted ((status_request True tok wsn)\<lparr>url := WallboxURL_V3\<rparr>) # rest"
proof -
  let ?r = "w (posts (trace st)) \<lparr>url = WallboxURL_V4, token_hdr = Dumps tok, body = JObj [(''sn'', wsn)]\<rparr>"
  have fb: "v4_fallback_answer repr ?r"
    using assms by (simp add: status_request_def resolve_status_url_def)
  show ?thesis
  proof (cases "checked_json ?r")
    case (Inl e)
    with fb have "checked_json ?r = Inl (HTTPError 404)"
      by (simp add: v4_fallback_answer_def)
    then show ?thesis
      by (simp add: read_status_v4 request_status_v4 status_request_def resolve_status_url_def
          Let_def split: sum.split json.split)
  next
    case (Inr j)
    with fb show ?thesis
      by (cases j) (simp_all add: v4_fallback_answer_def read_status_v4 request_status_v4
          status_request_def resolve_status_url_def Let_def split: sum.split json.split)
  qed
qed

lemma getData_fallback:
  assumes "0 \<le> n" and "ensure_token w renew st = (True, st1)"
    and "v4_fallback_answer repr (w (posts (trace st1)) (status_request True (token st1) wsn))"
  shows "\<exists>rest. trace (snd (getData True repr w wsn renew n st)) =
     trace st1 @ Posted (status_request True (token st1) wsn)
       # Posted ((status_request True (token st1) wsn)\<lparr>url := WallboxURL_V3\<rparr>) # rest"
proof -
  obtain r2 where "trace (snd (read_status True repr w (Dumps (token st1)) (JObj [(''sn'', wsn)]) st1)) =
     trace st1 @ Posted (status_request True (token st1) wsn)
       # Posted ((status_request True (token st1) wsn)\<lparr>url := WallboxURL_V3\<rparr>) # r2"
    using read_status_fallback [of repr w st1 "token st1" wsn] assms(3) by blast
  moreover obtain r3 where "trace (snd (getData True repr w wsn renew n st)) =
      trace (snd (read_status True repr w (Dumps (token st1)) (JObj [(''sn'', wsn)]) st1)) @ r3"
    using getData_after_read_status [OF assms(1,2), of True repr wsn] getData_trace by blast
  ultimately show ?thesis by simp
qed

lemma getData_no_fallback:
  assumes "0 \<le> n" and "ensure_token w renew st = (True, st1)"
    and nf: "\<not> v4_fallback_answer repr (w (posts (trace st1)) (status_request True (token st1) wsn))"
    and nx: "\<not> expired_status_answer repr (w (posts (trace st1)) (status_request True (token st1) wsn))"
  shows "getData True repr w wsn renew n st =
     (Inr (status_result (w (posts (trace st1)) (status_request True (token st1) wsn))),
      st1\<lparr>trace := trace st1 @ [Posted (status_request True (token st1) wsn)]\<rparr>)"
proof -
  let ?req = "\<lparr>url = WallboxURL_V4, token_hdr = Dumps (token st1), body = JObj [(''sn'', wsn)]\<rparr>"
  let ?r = "w (posts (trace st1)) ?req"
  have req: "status_request True (token st1) wsn = ?req"
    by (simp add: status_request_def resolve_status_url_def)
  show ?thesis
  proof (cases "checked_json ?r")
    case (Inl e)
    with nf have "e \<noteq> HTTPError 404"
      by (simp add: v4_fallback_answer_def req)
    with Inl show ?thesis
      unfolding getData_step [OF assms(1,2)] req
      by (simp add: read_status_v4 request_status_v4 Let_def status_result_def)
  next
    case (Inr j)
    with nf nx show ?thesis
      unfolding getData_step [OF assms(1,2)] req
      by (cases j) (simp_all add: read_status_v4 request_status_v4 Let_def status_result_def
          v4_fallback_answer_def expired_status_answer_def)
  qed
qed

lemma getData_v4_expired:
  assumes "0 \<le> n" and "ensure_token w renew st = (True, st1)"
    and nf: "\<not> v4_fallback_answer repr (w (posts (trace st1)) (status_request True (token st1) wsn))"
    and x: "expired_status_answer repr (w (posts (trace st1)) (status_request True (token st1) wsn))"
  shows "getData True repr w wsn renew n st =
     getData True repr w wsn True (n - 1)
       (clear_token (st1\<lparr>trace := trace st1 @ [Posted (status_request True (token st1) wsn)]\<rparr>))"
proof -
  let ?req = "\<lparr>url = WallboxURL_V4, token_hdr = Dumps (token st1), body = JObj [(''sn'', wsn)]\<rparr>"
  let ?r = "w (posts (trace st1)) ?req"
  have req: "status_request True (token st1) wsn = ?req"
    by (simp add: status_request_def resolve_status_url_def)
  show ?thesis
  proof (cases "checked_json ?r")
    case (Inl e)
    with x show ?thesis
      by (simp add: expired_status_answer_def req)
  next
    case (Inr j)
    with nf x show ?thesis
      unfolding getData_step [OF assms(1,2)] req
      by (cases j) (simp_all add: read_status_v4 request_status_v4 Let_def
          v4_fallback_answer_def expired_status_answer_def)
  qed
qed

text \<open>After an answer of the v4 endpoint that is not one of the two, no request follows it.\<close>

lemma getData_v4_not_followed:
  assumes "0 \<le> n" and "ensure_token w renew st = (True, st1)"
    and nf: "\<not> v4_fallback_answer repr (w (posts (trace st1)) (status_request True (token st1) wsn))"
  shows "\<exists>rest. trace (snd (getData True repr w wsn renew n st)) =
           trace st1 @ Posted (status_request True (token st1) wsn) # rest
         \<and> (rest = [] \<or> (\<exists>rest'. rest = TokenCleared # rest'))"
proof (cases "expired_status_answer repr
    (w (posts (trace st1)) (status_request True (token st1) wsn))")
  case False
  then show ?thesis
    by (simp add: getData_no_fallback [OF assms(1,2) nf])
next
  case True
  let ?st3 = "st1\<lparr>trace := trace st1 @ [Posted (status_request True (token st1) wsn)]\<rparr>"
  obtain r where "trace (snd (getData True repr w wsn True (n - 1) (clear_token ?st3))) =
      trace (clear_token ?st3) @ r"
    using getData_trace [of True repr w wsn True "n - 1" "clear_token ?st3"] by blast
  then show ?thesis
    by (simp add: getData_v4_expired [OF assms(1,2) nf True] clear_token_def)
qed

section \<open>The expired authorization\<close>

text \<open>
  C1, as amended. A call with \<^verbatim>\<open>maxTokenRetries = 1\<close> has its token and sends its request.
  An answer that calls the authorization expired, with no data, is followed by one
  clearing of the token and one login request. If the login gives a token, the same
  request is sent once more with the new token, and nothing after it: on a second such
  answer getData clears the token again and raises OutOfRetries, and a command returns.
  If the login gives no token, the call ends without a retry.
\<close>

theorem expired_authorization_relogin:
  "(ensure_token w False st = (True, st1)
      \<and> expired_status_answer repr
           (w (posts (trace st1)) (status_request USE_V4_STATUS (token st1) wsn))
    \<longrightarrow> getData USE_V4_STATUS repr w wsn False 1 st =
         (let k = posts (trace st1);
              retry = (\<lambda>t. status_request USE_V4_STATUS (Some t) wsn);
              tr = trace st1 @ [Posted (status_request USE_V4_STATUS (token st1) wsn),
                                TokenCleared, Posted (login_request st1)]
          in case login_token (w (Suc k) (login_request st1)) of
               None \<Rightarrow> (Inr JNull, st1\<lparr>token := None, trace := tr\<rparr>)
             | Some t \<Rightarrow>
                 if expired_status_answer repr (w (Suc (Suc k)) (retry t))
                 then (Inl OutOfRetries,
                       st1\<lparr>token := None, trace := tr @ [Posted (retry t), TokenCleared]\<rparr>)
                 else (Inr (status_result (w (Suc (Suc k)) (retry t))),
                       st1\<lparr>token := Some t, trace := tr @ [Posted (retry t)]\<rparr>)))
   \<and> (ensure_token w False st = (True, st1)
      \<and> expired_command_answer repr
           (w (posts (trace st1)) (change_status_request repr (token st1) wsn status))
    \<longrightarrow> change_status repr w wsn status False 1 st =
         (let k = posts (trace st1);
              tr = trace st1 @ [Posted (change_status_request repr (token st1) wsn status),
                                TokenCleared, Posted (login_request st1)]
          in case login_token (w (Suc k) (login_request st1)) of
               None \<Rightarrow> (Inr (), st1\<lparr>token := None, trace := tr\<rparr>)
             | Some t \<Rightarrow>
                 (Inr (), st1\<lparr>token := Some t,
                              trace := tr @ [Posted (change_status_request repr (Some t) wsn status)]\<rparr>)))
   \<and> (ensure_token w False st = (True, st1)
      \<and> expired_command_answer repr
           (w (posts (trace st1)) (set_charge_mode_request (token st1) wsn mode chargePower))
    \<longrightarrow> set_charge_mode repr w wsn mode chargePower False 1 st =
         (let k = posts (trace st1);
              tr = trace st1 @ [Posted (set_charge_mode_request (token st1) wsn mode chargePower),
                                TokenCleared, Posted (login_request st1)]
          in case login_token (w (Suc k) (login_request st1)) of
               None \<Rightarrow> (Inr (), st1\<lparr>token := None, trace := tr\<rparr>)
             | Some t \<Rightarrow>
                 (Inr (), st1\<lparr>token := Some t,
                              trace := tr @ [Posted (set_charge_mode_request (Some t) wsn mode chargePower)]\<rparr>)))"
proof (intro conjI impI)
  assume "ensure_token w False st = (True, st1)
      \<and> expired_status_answer repr
           (w (posts (trace st1)) (status_request USE_V4_STATUS (token st1) wsn))"
  then show "getData USE_V4_STATUS repr w wsn False 1 st =
         (let k = posts (trace st1);
              retry = (\<lambda>t. status_request USE_V4_STATUS (Some t) wsn);
              tr = trace st1 @ [Posted (status_request USE_V4_STATUS (token st1) wsn),
                                TokenCleared, Posted (login_request st1)]
          in case login_token (w (Suc k) (login_request st1)) of
               None \<Rightarrow> (Inr JNull, st1\<lparr>token := None, trace := tr\<rparr>)
             | Some t \<Rightarrow>
                 if expired_status_answer repr (w (Suc (Suc k)) (retry t))
                 then (Inl OutOfRetries,
                       st1\<lparr>token := None, trace := tr @ [Posted (retry t), TokenCleared]\<rparr>)
                 else (Inr (status_result (w (Suc (Suc k)) (retry t))),
                       st1\<lparr>token := Some t, trace := tr @ [Posted (retry t)]\<rparr>))"
    unfolding USE_V4_STATUS_def by (simp add: getData_expired_retry Let_def)
next
  assume "ensure_token w False st = (True, st1)
      \<and> expired_command_answer repr
           (w (posts (trace st1)) (change_status_request repr (token st1) wsn status))"
  then show "change_status repr w wsn status False 1 st =
         (let k = posts (trace st1);
              tr = trace st1 @ [Posted (change_status_request repr (token st1) wsn status),
                                TokenCleared, Posted (login_request st1)]
          in case login_token (w (Suc k) (login_request st1)) of
               None \<Rightarrow> (Inr (), st1\<lparr>token := None, trace := tr\<rparr>)
             | Some t \<Rightarrow>
                 (Inr (), st1\<lparr>token := Some t,
                              trace := tr @ [Posted (change_status_request repr (Some t) wsn status)]\<rparr>))"
    unfolding change_status_def change_status_request_def
    by (simp add: send_command_expired_retry Let_def)
next
  assume "ensure_token w False st = (True, st1)
      \<and> expired_command_answer repr
           (w (posts (trace st1)) (set_charge_mode_request (token st1) wsn mode chargePower))"
  then show "set_charge_mode repr w wsn mode chargePower False 1 st =
         (let k = posts (trace st1);
              tr = trace st1 @ [Posted (set_charge_mode_request (token st1) wsn mode chargePower),
                                TokenCleared, Posted (login_request st1)]
          in case login_token (w (Suc k) (login_request st1)) of
               None \<Rightarrow> (Inr (), st1\<lparr>token := None, trace := tr\<rparr>)
             | Some t \<Rightarrow>
                 (Inr (), st1\<lparr>token := Some t,
                              trace := tr @ [Posted (set_charge_mode_request (Some t) wsn mode chargePower)]\<rparr>))"
    unfolding set_charge_mode_def set_charge_mode_request_def
    by (simp add: send_command_expired_retry Let_def)
qed

theorem expired_authorization_relogin_witness:
  "ensure_token world_renewed False api0 = (True, api0)
   \<and> expired_status_answer repr0
         (world_renewed (posts (trace api0)) (status_request USE_V4_STATUS (token api0) (JStr ''WB1'')))
   \<and> getData USE_V4_STATUS repr0 world_renewed (JStr ''WB1'') False 1 api0 =
       (Inr (JObj reading0),
        api0\<lparr>token := Some [(''uid'', JStr ''u2''), (''api'', JNull)],
             trace := [Posted (status_request False (Some [(''uid'', JStr ''u1'')]) (JStr ''WB1'')),
                       TokenCleared, Posted (login_request api0),
                       Posted (status_request False
                                 (Some [(''uid'', JStr ''u2''), (''api'', JNull)]) (JStr ''WB1''))]\<rparr>)
   \<and> ensure_token world_expired False api0 = (True, api0)
   \<and> expired_command_answer repr0
         (world_expired (posts (trace api0))
            (change_status_request repr0 (token api0) (JStr ''WB1'') (JNum 1)))
   \<and> change_status repr0 world_expired (JStr ''WB1'') (JNum 1) False 1 api0 =
       (Inr (),
        api0\<lparr>token := Some [(''uid'', JStr ''u2''), (''api'', JNull)],
             trace := [Posted (change_status_request repr0 (Some [(''uid'', JStr ''u1'')])
                                 (JStr ''WB1'') (JNum 1)),
                       TokenCleared, Posted (login_request api0),
                       Posted (change_status_request repr0
                                 (Some [(''uid'', JStr ''u2''), (''api'', JNull)])
                                 (JStr ''WB1'') (JNum 1))]\<rparr>)
   \<and> expired_command_answer repr0
         (world_expired (posts (trace api0))
            (set_charge_mode_request (token api0) (JStr ''WB1'') (JNum 0) (JNum 11)))
   \<and> set_charge_mode repr0 world_expired (JStr ''WB1'') (JNum 0) (JNum 11) False 1 api0 =
       (Inr (),
        api0\<lparr>token := Some [(''uid'', JStr ''u2''), (''api'', JNull)],
             trace := [Posted (set_charge_mode_request (Some [(''uid'', JStr ''u1'')])
                                 (JStr ''WB1'') (JNum 0) (JNum 11)),
                       TokenCleared, Posted (login_request api0),
                       Posted (set_charge_mode_request
                                 (Some [(''uid'', JStr ''u2''), (''api'', JNull)])
                                 (JStr ''WB1'') (JNum 0) (JNum 11))]\<rparr>)"
proof -
  have e1: "ensure_token world_renewed False api0 = (True, api0)"
    and e2: "ensure_token world_expired False api0 = (True, api0)"
    by (simp_all add: ensure_token_cached api0_def)
  have x1: "expired_status_answer repr0
         (world_renewed (posts (trace api0)) (status_request USE_V4_STATUS (token api0) (JStr ''WB1'')))"
    by code_simp
  have x2: "expired_command_answer repr0
         (world_expired (posts (trace api0))
            (change_status_request repr0 (token api0) (JStr ''WB1'') (JNum 1)))"
    by code_simp
  have x3: "expired_command_answer repr0
         (world_expired (posts (trace api0))
            (set_charge_mode_request (token api0) (JStr ''WB1'') (JNum 0) (JNum 11)))"
    by code_simp
  note thm1 = expired_authorization_relogin [of world_renewed api0 api0 repr0 "JStr ''WB1''"]
  note thm2 = expired_authorization_relogin [of world_expired api0 api0 repr0 "JStr ''WB1''"
      "JNum 1" "JNum 0" "JNum 11"]
  have "getData USE_V4_STATUS repr0 world_renewed (JStr ''WB1'') False 1 api0 =
         (let k = posts (trace api0);
              retry = (\<lambda>t. status_request USE_V4_STATUS (Some t) (JStr ''WB1''));
              tr = trace api0 @ [Posted (status_request USE_V4_STATUS (token api0) (JStr ''WB1'')),
                                TokenCleared, Posted (login_request api0)]
          in case login_token (world_renewed (Suc k) (login_request api0)) of
               None \<Rightarrow> (Inr JNull, api0\<lparr>token := None, trace := tr\<rparr>)
             | Some t \<Rightarrow>
                 if expired_status_answer repr0 (world_renewed (Suc (Suc k)) (retry t))
                 then (Inl OutOfRetries,
                       api0\<lparr>token := None, trace := tr @ [Posted (retry t), TokenCleared]\<rparr>)
                 else (Inr (status_result (world_renewed (Suc (Suc k)) (retry t))),
                       api0\<lparr>token := Some t, trace := tr @ [Posted (retry t)]\<rparr>))"
    using thm1 e1 x1 by blast
  also have "\<dots> = (Inr (JObj reading0),
        api0\<lparr>token := Some [(''uid'', JStr ''u2''), (''api'', JNull)],
             trace := [Posted (status_request False (Some [(''uid'', JStr ''u1'')]) (JStr ''WB1'')),
                       TokenCleared, Posted (login_request api0),
                       Posted (status_request False
                                 (Some [(''uid'', JStr ''u2''), (''api'', JNull)]) (JStr ''WB1''))]\<rparr>)"
    by code_simp
  finally have r1: "getData USE_V4_STATUS repr0 world_renewed (JStr ''WB1'') False 1 api0 =
       (Inr (JObj reading0),
        api0\<lparr>token := Some [(''uid'', JStr ''u2''), (''api'', JNull)],
             trace := [Posted (status_request False (Some [(''uid'', JStr ''u1'')]) (JStr ''WB1'')),
                       TokenCleared, Posted (login_request api0),
                       Posted (status_request False
                                 (Some [(''uid'', JStr ''u2''), (''api'', JNull)]) (JStr ''WB1''))]\<rparr>)" .
  have "change_status repr0 world_expired (JStr ''WB1'') (JNum 1) False 1 api0 =
         (let k = posts (trace api0);
              tr = trace api0 @ [Posted (change_status_request repr0 (token api0) (JStr ''WB1'') (JNum 1)),
                                TokenCleared, Posted (login_request api0)]
          in case login_token (world_expired (Suc k) (login_request api0)) of
               None \<Rightarrow> (Inr (), api0\<lparr>token := None, trace := tr\<rparr>)
             | Some t \<Rightarrow>
                 (Inr (), api0\<lparr>token := Some t,
                              trace := tr @ [Posted (change_status_request repr0 (Some t) (JStr ''WB1'') (JNum 1))]\<rparr>))"
    using thm2 e2 x2 by blast
  also have "\<dots> = (Inr (),
        api0\<lparr>token := Some [(''uid'', JStr ''u2''), (''api'', JNull)],
             trace := [Posted (change_status_request repr0 (Some [(''uid'', JStr ''u1'')])
                                 (JStr ''WB1'') (JNum 1)),
                       TokenCleared, Posted (login_request api0),
                       Posted (change_status_request repr0
                                 (Some [(''uid'', JStr ''u2''), (''api'', JNull)])
                                 (JStr ''WB1'') (JNum 1))]\<rparr>)"
    by code_simp
  finally have r2: "change_status repr0 world_expired (JStr ''WB1'') (JNum 1) False 1 api0 =
       (Inr (),
        api0\<lparr>token := Some [(''uid'', JStr ''u2''), (''api'', JNull)],
             trace := [Posted (change_status_request repr0 (Some [(''uid'', JStr ''u1'')])
                                 (JStr ''WB1'') (JNum 1)),
                       TokenCleared, Posted (login_request api0),
                       Posted (change_status_request repr0
                                 (Some [(''uid'', JStr ''u2''), (''api'', JNull)])
                                 (JStr ''WB1'') (JNum 1))]\<rparr>)" .
  have "set_charge_mode repr0 world_expired (JStr ''WB1'') (JNum 0) (JNum 11) False 1 api0 =
         (let k = posts (trace api0);
              tr = trace api0 @ [Posted (set_charge_mode_request (token api0) (JStr ''WB1'') (JNum 0) (JNum 11)),
                                TokenCleared, Posted (login_request api0)]
          in case login_token (world_expired (Suc k) (login_request api0)) of
               None \<Rightarrow> (Inr (), api0\<lparr>token := None, trace := tr\<rparr>)
             | Some t \<Rightarrow>
                 (Inr (), api0\<lparr>token := Some t,
                              trace := tr @ [Posted (set_charge_mode_request (Some t) (JStr ''WB1'') (JNum 0) (JNum 11))]\<rparr>))"
    using thm2 e2 x3 by blast
  also have "\<dots> = (Inr (),
        api0\<lparr>token := Some [(''uid'', JStr ''u2''), (''api'', JNull)],
             trace := [Posted (set_charge_mode_request (Some [(''uid'', JStr ''u1'')])
                                 (JStr ''WB1'') (JNum 0) (JNum 11)),
                       TokenCleared, Posted (login_request api0),
                       Posted (set_charge_mode_request
                                 (Some [(''uid'', JStr ''u2''), (''api'', JNull)])
                                 (JStr ''WB1'') (JNum 0) (JNum 11))]\<rparr>)"
    by code_simp
  finally have r3: "set_charge_mode repr0 world_expired (JStr ''WB1'') (JNum 0) (JNum 11) False 1 api0 =
       (Inr (),
        api0\<lparr>token := Some [(''uid'', JStr ''u2''), (''api'', JNull)],
             trace := [Posted (set_charge_mode_request (Some [(''uid'', JStr ''u1'')])
                                 (JStr ''WB1'') (JNum 0) (JNum 11)),
                       TokenCleared, Posted (login_request api0),
                       Posted (set_charge_mode_request
                                 (Some [(''uid'', JStr ''u2''), (''api'', JNull)])
                                 (JStr ''WB1'') (JNum 0) (JNum 11))]\<rparr>)" .
  from e1 e2 x1 x2 x3 r1 r2 r3 show ?thesis
    by (intro conjI)
qed

text \<open>
  C1 as stated fails where the re-login fails: the expired answer is followed by the
  clearing and the login request, and by no retry of the request.
\<close>

theorem expired_authorization_counterexample:
  "expired_status_answer repr0
     (world_relogin_fails 0 (status_request USE_V4_STATUS (token api0) (JStr ''WB1'')))
   \<and> getData USE_V4_STATUS repr0 world_relogin_fails (JStr ''WB1'') False 1 api0 =
       (Inr JNull,
        api0\<lparr>token := None,
             trace := [Posted (status_request USE_V4_STATUS (token api0) (JStr ''WB1'')),
                       TokenCleared, Posted (login_request api0)]\<rparr>)"
  by code_simp

section \<open>Errors of the network and of the vendor\<close>

lemma getData_failed_answer:
  assumes "0 \<le> n" and "ensure_token w renew st = (True, st1)"
    and f: "failed_status_answer repr (w (posts (trace st1)) (status_request False (token st1) wsn))"
  shows "getData False repr w wsn renew n st =
     (Inr JNull, st1\<lparr>trace := trace st1 @ [Posted (status_request False (token st1) wsn)]\<rparr>)"
proof -
  let ?r = "w (posts (trace st1)) (status_request False (token st1) wsn)"
  from f have "\<not> expired_status_answer repr ?r" and "status_result ?r = JNull"
    by (auto simp add: failed_status_answer_def expired_status_answer_def status_result_def
        split: sum.splits json.splits)
  then show ?thesis
    by (simp add: getData_attempt [OF assms(1,2)] Let_def)
qed

lemma send_command_failed_answer:
  assumes "0 \<le> n" and "ensure_token w renew st = (True, st1)"
    and f: "failed_command_answer repr
              (w (posts (trace st1)) \<lparr>url = u, token_hdr = Dumps (token st1), body = d\<rparr>)"
  shows "send_command repr w u d renew n st =
     (Inr (), st1\<lparr>trace := trace st1
                     @ [Posted \<lparr>url = u, token_hdr = Dumps (token st1), body = d\<rparr>]\<rparr>)"
  using f
  by (cases "w (posts (trace st1)) \<lparr>url = u, token_hdr = Dumps (token st1), body = d\<rparr>")
    (simp_all add: send_command_step [OF assms(1,2)] Let_def failed_command_answer_def)

lemma update_fails_no_data:
  "fst (getData use_v4 repr w (JStr station_id) False 1 st) = Inr JNull
   \<Longrightarrow> fst (async_update_data use_v4 repr w station_id st) = Inl (UpdateFailed NoDataReceived)"
  by (cases "getData use_v4 repr w (JStr station_id) False 1 st")
    (simp add: async_update_data_def)

lemma update_fails_raised:
  "fst (getData use_v4 repr w (JStr station_id) False 1 st) = Inl e
   \<Longrightarrow> fst (async_update_data use_v4 repr w station_id st) =
       Inl (UpdateFailed (if e = OutOfRetries then TooManyRetries else ErrorCommunicating))"
  by (cases "getData use_v4 repr w (JStr station_id) False 1 st")
    (simp add: async_update_data_def split: exc.split)

text \<open>
  C3, as amended. With the v3 endpoint in use, a login that gives no token and an error in
  the answer to the status request both make getData return \<^verbatim>\<open>None\<close> with nothing sent
  after the failed request; \<^verbatim>\<open>_async_update_data\<close> raises UpdateFailed when getData
  returns \<^verbatim>\<open>None\<close> or raises. change_status and set_charge_mode return \<^verbatim>\<open>None\<close> in
  every case; after a failed login or an error in the answer they send nothing more.
\<close>

theorem errors_fail_the_poll_not_the_command:
  "(0 \<le> n \<and> ensure_token w renew st = (False, st') \<longrightarrow>
      getData use_v4 repr w wsn renew n st = (Inr JNull, st'))
   \<and> (0 \<le> n \<and> ensure_token w renew st = (True, st')
       \<and> failed_status_answer repr
            (w (posts (trace st')) (status_request USE_V4_STATUS (token st') wsn)) \<longrightarrow>
      getData USE_V4_STATUS repr w wsn renew n st =
        (Inr JNull,
         st'\<lparr>trace := trace st' @ [Posted (status_request USE_V4_STATUS (token st') wsn)]\<rparr>))
   \<and> (fst (getData use_v4 repr w (JStr station_id) False 1 st) = Inr JNull \<longrightarrow>
      fst (async_update_data use_v4 repr w station_id st) = Inl (UpdateFailed NoDataReceived))
   \<and> (fst (getData use_v4 repr w (JStr station_id) False 1 st) = Inl e \<longrightarrow>
      fst (async_update_data use_v4 repr w station_id st) =
        Inl (UpdateFailed (if e = OutOfRetries then TooManyRetries else ErrorCommunicating)))
   \<and> fst (change_status repr w wsn status renew n st) = Inr ()
   \<and> fst (set_charge_mode repr w wsn mode chargePower renew n st) = Inr ()
   \<and> (0 \<le> n \<and> ensure_token w renew st = (False, st') \<longrightarrow>
      change_status repr w wsn status renew n st = (Inr (), st')
      \<and> set_charge_mode repr w wsn mode chargePower renew n st = (Inr (), st'))
   \<and> (0 \<le> n \<and> ensure_token w renew st = (True, st')
       \<and> failed_command_answer repr
            (w (posts (trace st')) (change_status_request repr (token st') wsn status)) \<longrightarrow>
      change_status repr w wsn status renew n st =
        (Inr (),
         st'\<lparr>trace := trace st' @ [Posted (change_status_request repr (token st') wsn status)]\<rparr>))
   \<and> (0 \<le> n \<and> ensure_token w renew st = (True, st')
       \<and> failed_command_answer repr
            (w (posts (trace st')) (set_charge_mode_request (token st') wsn mode chargePower)) \<longrightarrow>
      set_charge_mode repr w wsn mode chargePower renew n st =
        (Inr (),
         st'\<lparr>trace := trace st'
                 @ [Posted (set_charge_mode_request (token st') wsn mode chargePower)]\<rparr>))"
proof (intro conjI impI)
  assume "0 \<le> n \<and> ensure_token w renew st = (False, st')"
  then show "getData use_v4 repr w wsn renew n st = (Inr JNull, st')"
    by (simp add: getData_no_token)
next
  assume "0 \<le> n \<and> ensure_token w renew st = (True, st')
       \<and> failed_status_answer repr
            (w (posts (trace st')) (status_request USE_V4_STATUS (token st') wsn))"
  then show "getData USE_V4_STATUS repr w wsn renew n st =
        (Inr JNull,
         st'\<lparr>trace := trace st' @ [Posted (status_request USE_V4_STATUS (token st') wsn)]\<rparr>)"
    unfolding USE_V4_STATUS_def by (simp add: getData_failed_answer)
next
  assume "fst (getData use_v4 repr w (JStr station_id) False 1 st) = Inr JNull"
  then show "fst (async_update_data use_v4 repr w station_id st) =
      Inl (UpdateFailed NoDataReceived)"
    by (rule update_fails_no_data)
next
  assume "fst (getData use_v4 repr w (JStr station_id) False 1 st) = Inl e"
  then show "fst (async_update_data use_v4 repr w station_id st) =
        Inl (UpdateFailed (if e = OutOfRetries then TooManyRetries else ErrorCommunicating))"
    by (rule update_fails_raised)
next
  show "fst (change_status repr w wsn status renew n st) = Inr ()"
    by (simp add: change_status_def)
  show "fst (set_charge_mode repr w wsn mode chargePower renew n st) = Inr ()"
    by (simp add: set_charge_mode_def)
next
  assume a: "0 \<le> n \<and> ensure_token w renew st = (False, st')"
  then show "change_status repr w wsn status renew n st = (Inr (), st')"
    by (simp add: change_status_def send_command_no_token)
  from a show "set_charge_mode repr w wsn mode chargePower renew n st = (Inr (), st')"
    by (simp add: set_charge_mode_def send_command_no_token)
next
  assume "0 \<le> n \<and> ensure_token w renew st = (True, st')
       \<and> failed_command_answer repr
            (w (posts (trace st')) (change_status_request repr (token st') wsn status))"
  then show "change_status repr w wsn status renew n st =
        (Inr (),
         st'\<lparr>trace := trace st' @ [Posted (change_status_request repr (token st') wsn status)]\<rparr>)"
    unfolding change_status_def change_status_request_def
    by (simp add: send_command_failed_answer)
next
  assume "0 \<le> n \<and> ensure_token w renew st = (True, st')
       \<and> failed_command_answer repr
            (w (posts (trace st')) (set_charge_mode_request (token st') wsn mode chargePower))"
  then show "set_charge_mode repr w wsn mode chargePower renew n st =
        (Inr (),
         st'\<lparr>trace := trace st'
                 @ [Posted (set_charge_mode_request (token st') wsn mode chargePower)]\<rparr>)"
    unfolding set_charge_mode_def set_charge_mode_request_def
    by (simp add: send_command_failed_answer)
qed

theorem errors_fail_the_poll_not_the_command_witness:
  "(0 :: int) \<le> 1
   \<and> ensure_token world_down False api_fresh =
       (False, api_fresh\<lparr>trace := [Posted (login_request api_fresh)]\<rparr>)
   \<and> getData USE_V4_STATUS repr0 world_down (JStr ''WB1'') False 1 api_fresh =
       (Inr JNull, api_fresh\<lparr>trace := [Posted (login_request api_fresh)]\<rparr>)
   \<and> fst (async_update_data USE_V4_STATUS repr0 world_down ''WB1'' api_fresh) =
       Inl (UpdateFailed NoDataReceived)
   \<and> change_status repr0 world_down (JStr ''WB1'') (JNum 1) False 1 api_fresh =
       (Inr (), api_fresh\<lparr>trace := [Posted (login_request api_fresh)]\<rparr>)
   \<and> ensure_token world_broken False api0 = (True, api0)
   \<and> failed_status_answer repr0
         (world_broken (posts (trace api0)) (status_request USE_V4_STATUS (token api0) (JStr ''WB1'')))
   \<and> getData USE_V4_STATUS repr0 world_broken (JStr ''WB1'') False 1 api0 =
       (Inr JNull,
        api0\<lparr>trace := trace api0
                @ [Posted (status_request USE_V4_STATUS (token api0) (JStr ''WB1''))]\<rparr>)
   \<and> fst (async_update_data USE_V4_STATUS repr0 world_broken ''WB1'' api0) =
       Inl (UpdateFailed NoDataReceived)
   \<and> fst (getData USE_V4_STATUS repr0 world_expired (JStr ''WB1'') False 1 api0) = Inl OutOfRetries
   \<and> fst (async_update_data USE_V4_STATUS repr0 world_expired ''WB1'' api0) =
       Inl (UpdateFailed TooManyRetries)
   \<and> failed_command_answer repr0
         (world_broken (posts (trace api0))
            (change_status_request repr0 (token api0) (JStr ''WB1'') (JNum 1)))
   \<and> change_status repr0 world_broken (JStr ''WB1'') (JNum 1) False 1 api0 =
       (Inr (),
        api0\<lparr>trace := trace api0
                @ [Posted (change_status_request repr0 (token api0) (JStr ''WB1'') (JNum 1))]\<rparr>)
   \<and> failed_command_answer repr0
         (world_broken (posts (trace api0))
            (set_charge_mode_request (token api0) (JStr ''WB1'') (JNum 0) (JNum 11)))
   \<and> set_charge_mode repr0 world_broken (JStr ''WB1'') (JNum 0) (JNum 11) False 1 api0 =
       (Inr (),
        api0\<lparr>trace := trace api0
                @ [Posted (set_charge_mode_request (token api0) (JStr ''WB1'') (JNum 0) (JNum 11))]\<rparr>)"
proof -
  let ?fresh1 = "api_fresh\<lparr>trace := [Posted (login_request api_fresh)]\<rparr>"
  note down = errors_fail_the_poll_not_the_command [where n = 1 and w = world_down
      and renew = False and st = api_fresh and st' = ?fresh1 and ?use_v4.0 = USE_V4_STATUS
      and repr = repr0 and wsn = "JStr ''WB1''" and station_id = "''WB1''"
      and status = "JNum 1" and mode = "JNum 0" and chargePower = "JNum 11"]
  note broken = errors_fail_the_poll_not_the_command [where n = 1 and w = world_broken
      and renew = False and st = api0 and st' = api0 and ?use_v4.0 = USE_V4_STATUS
      and repr = repr0 and wsn = "JStr ''WB1''" and station_id = "''WB1''"
      and status = "JNum 1" and mode = "JNum 0" and chargePower = "JNum 11"]
  note expired = errors_fail_the_poll_not_the_command [where n = 1 and w = world_expired
      and renew = False and st = api0 and st' = api0 and ?use_v4.0 = USE_V4_STATUS
      and repr = repr0 and wsn = "JStr ''WB1''" and station_id = "''WB1''"
      and status = "JNum 1" and mode = "JNum 0" and chargePower = "JNum 11"
      and e = OutOfRetries]
  have n: "(0 :: int) \<le> 1" by simp
  have e1: "ensure_token world_down False api_fresh = (False, ?fresh1)"
    by code_simp
  have e2: "ensure_token world_broken False api0 = (True, api0)"
    by (simp add: ensure_token_cached api0_def)
  have f1: "failed_status_answer repr0
         (world_broken (posts (trace api0)) (status_request USE_V4_STATUS (token api0) (JStr ''WB1'')))"
    by code_simp
  have f2: "failed_command_answer repr0
         (world_broken (posts (trace api0))
            (change_status_request repr0 (token api0) (JStr ''WB1'') (JNum 1)))"
    by code_simp
  have f3: "failed_command_answer repr0
         (world_broken (posts (trace api0))
            (set_charge_mode_request (token api0) (JStr ''WB1'') (JNum 0) (JNum 11)))"
    by code_simp
  have x: "fst (getData USE_V4_STATUS repr0 world_expired (JStr ''WB1'') False 1 api0) =
      Inl OutOfRetries"
    by code_simp
  have g1: "getData USE_V4_STATUS repr0 world_down (JStr ''WB1'') False 1 api_fresh =
       (Inr JNull, ?fresh1)"
    using down n e1 by blast
  then have "fst (getData USE_V4_STATUS repr0 world_down (JStr ''WB1'') False 1 api_fresh) =
      Inr JNull"
    by simp
  with down have u1: "fst (async_update_data USE_V4_STATUS repr0 world_down ''WB1'' api_fresh) =
       Inl (UpdateFailed NoDataReceived)"
    by blast
  have c1: "change_status repr0 world_down (JStr ''WB1'') (JNum 1) False 1 api_fresh =
       (Inr (), ?fresh1)"
    using down n e1 by blast
  have g2: "getData USE_V4_STATUS repr0 world_broken (JStr ''WB1'') False 1 api0 =
       (Inr JNull,
        api0\<lparr>trace := trace api0
                @ [Posted (status_request USE_V4_STATUS (token api0) (JStr ''WB1''))]\<rparr>)"
    using broken n e2 f1 by blast
  then have "fst (getData USE_V4_STATUS repr0 world_broken (JStr ''WB1'') False 1 api0) =
      Inr JNull"
    by simp
  with broken have u2: "fst (async_update_data USE_V4_STATUS repr0 world_broken ''WB1'' api0) =
       Inl (UpdateFailed NoDataReceived)"
    by blast
  from expired x have u3: "fst (async_update_data USE_V4_STATUS repr0 world_expired ''WB1'' api0) =
       Inl (UpdateFailed TooManyRetries)"
    by simp
  have c2: "change_status repr0 world_broken (JStr ''WB1'') (JNum 1) False 1 api0 =
       (Inr (),
        api0\<lparr>trace := trace api0
                @ [Posted (change_status_request repr0 (token api0) (JStr ''WB1'') (JNum 1))]\<rparr>)"
    using broken n e2 f2 by blast
  have c3: "set_charge_mode repr0 world_broken (JStr ''WB1'') (JNum 0) (JNum 11) False 1 api0 =
       (Inr (),
        api0\<lparr>trace := trace api0
                @ [Posted (set_charge_mode_request (token api0) (JStr ''WB1'') (JNum 0) (JNum 11))]\<rparr>)"
    using broken n e2 f3 by blast
  from n e1 g1 u1 c1 e2 f1 g2 u2 x u3 f2 c2 f3 c3 show ?thesis
    by (intro conjI)
qed

text \<open>
  C3 as stated fails for the commands: with the vendor out of reach change_status returns
  as it does when the vendor answers, and raises nothing.
\<close>

theorem command_error_counterexample:
  "failed_command_answer repr0
     (world_down 0 (change_status_request repr0 (token api0) (JStr ''WB1'') (JNum 1)))
   \<and> change_status repr0 world_down (JStr ''WB1'') (JNum 1) False 1 api0 =
       (Inr (),
        api0\<lparr>trace := [Posted (change_status_request repr0 (token api0) (JStr ''WB1'') (JNum 1))]\<rparr>)
   \<and> fst (change_status repr0 world_down (JStr ''WB1'') (JNum 1) False 1 api0) =
       fst (change_status repr0 world_up (JStr ''WB1'') (JNum 1) False 1 api0)"
  by code_simp

section \<open>The fallback to the v3 endpoint\<close>

text \<open>
  C7, as amended. The first request of a fetch goes to the URL that the switch selects.
  With the v4 endpoint in use, an HTTP 404 and an answer without \<^verbatim>\<open>data\<close> whose \<^verbatim>\<open>msg\<close>
  contains the vendor's word for success are followed by the same request to the v3
  endpoint. After any other answer of the v4 endpoint no request follows the v4 request:
  the fetch ends there and returns the \<^verbatim>\<open>data\<close> of the answer or \<^verbatim>\<open>None\<close>, unless the
  answer calls the authorization expired; then the token is cleared and getData is
  entered again, to log in and to fetch with one retry less.
\<close>

theorem status_endpoint_fallback:
  "resolve_status_url use_v4 = (if use_v4 then WallboxURL_V4 else WallboxURL_V3)
   \<and> (0 \<le> n \<and> ensure_token w renew st = (True, st') \<longrightarrow>
        (\<exists>rest. trace (snd (getData use_v4 repr w wsn renew n st)) =
           trace st' @ Posted (status_request use_v4 (token st') wsn) # rest))
   \<and> (0 \<le> n \<and> ensure_token w renew st = (True, st')
       \<and> v4_fallback_answer repr (w (posts (trace st')) (status_request True (token st') wsn)) \<longrightarrow>
        (\<exists>rest. trace (snd (getData True repr w wsn renew n st)) =
           trace st' @ Posted (status_request True (token st') wsn)
             # Posted ((status_request True (token st') wsn)\<lparr>url := WallboxURL_V3\<rparr>) # rest))
   \<and> (0 \<le> n \<and> ensure_token w renew st = (True, st')
       \<and> \<not> v4_fallback_answer repr (w (posts (trace st')) (status_request True (token st') wsn))
      \<longrightarrow>
        (\<exists>rest. trace (snd (getData True repr w wsn renew n st)) =
           trace st' @ Posted (status_request True (token st') wsn) # rest
           \<and> (rest = [] \<or> (\<exists>rest'. rest = TokenCleared # rest'))))
   \<and> (0 \<le> n \<and> ensure_token w renew st = (True, st')
       \<and> \<not> v4_fallback_answer repr (w (posts (trace st')) (status_request True (token st') wsn))
       \<and> \<not> expired_status_answer repr (w (posts (trace st')) (status_request True (token st') wsn))
      \<longrightarrow>
        getData True repr w wsn renew n st =
          (Inr (status_result (w (posts (trace st')) (status_request True (token st') wsn))),
           st'\<lparr>trace := trace st' @ [Posted (status_request True (token st') wsn)]\<rparr>))
   \<and> (0 \<le> n \<and> ensure_token w renew st = (True, st')
       \<and> \<not> v4_fallback_answer repr (w (posts (trace st')) (status_request True (token st') wsn))
       \<and> expired_status_answer repr (w (posts (trace st')) (status_request True (token st') wsn))
      \<longrightarrow>
        getData True repr w wsn renew n st =
          getData True repr w wsn True (n - 1)
            (clear_token
               (st'\<lparr>trace := trace st' @ [Posted (status_request True (token st') wsn)]\<rparr>)))"
proof (intro conjI impI)
  show "resolve_status_url use_v4 = (if use_v4 then WallboxURL_V4 else WallboxURL_V3)"
    by (simp add: resolve_status_url_def)
next
  assume "0 \<le> n \<and> ensure_token w renew st = (True, st')"
  then show "\<exists>rest. trace (snd (getData use_v4 repr w wsn renew n st)) =
           trace st' @ Posted (status_request use_v4 (token st') wsn) # rest"
    by (simp add: getData_first_request)
next
  assume "0 \<le> n \<and> ensure_token w renew st = (True, st')
       \<and> v4_fallback_answer repr (w (posts (trace st')) (status_request True (token st') wsn))"
  then show "\<exists>rest. trace (snd (getData True repr w wsn renew n st)) =
           trace st' @ Posted (status_request True (token st') wsn)
             # Posted ((status_request True (token st') wsn)\<lparr>url := WallboxURL_V3\<rparr>) # rest"
    by (simp add: getData_fallback)
next
  assume "0 \<le> n \<and> ensure_token w renew st = (True, st')
       \<and> \<not> v4_fallback_answer repr (w (posts (trace st')) (status_request True (token st') wsn))"
  then show "\<exists>rest. trace (snd (getData True repr w wsn renew n st)) =
           trace st' @ Posted (status_request True (token st') wsn) # rest
           \<and> (rest = [] \<or> (\<exists>rest'. rest = TokenCleared # rest'))"
    using getData_v4_not_followed [of n w renew st st' repr wsn] by blast
next
  assume "0 \<le> n \<and> ensure_token w renew st = (True, st')
       \<and> \<not> v4_fallback_answer repr (w (posts (trace st')) (status_request True (token st') wsn))
       \<and> \<not> expired_status_answer repr (w (posts (trace st')) (status_request True (token st') wsn))"
  then show "getData True repr w wsn renew n st =
          (Inr (status_result (w (posts (trace st')) (status_request True (token st') wsn))),
           st'\<lparr>trace := trace st' @ [Posted (status_request True (token st') wsn)]\<rparr>)"
    by (simp add: getData_no_fallback)
next
  assume "0 \<le> n \<and> ensure_token w renew st = (True, st')
       \<and> \<not> v4_fallback_answer repr (w (posts (trace st')) (status_request True (token st') wsn))
       \<and> expired_status_answer repr (w (posts (trace st')) (status_request True (token st') wsn))"
  then show "getData True repr w wsn renew n st =
          getData True repr w wsn True (n - 1)
            (clear_token
               (st'\<lparr>trace := trace st' @ [Posted (status_request True (token st') wsn)]\<rparr>))"
    using getData_v4_expired [of n w renew st st' repr wsn] by blast
qed

text \<open>
  C7 as stated fails for an answer of the v4 endpoint with HTTP 200, code 0 and the
  message \<^verbatim>\<open>success\<close>, without data: the fetch returns \<^verbatim>\<open>None\<close> after that one request.
\<close>

theorem status_endpoint_fallback_counterexample:
  "status_result (world_v4_success 0 (status_request True (token api0) (JStr ''WB1''))) = JNull
   \<and> url (status_request True (token api0) (JStr ''WB1'')) = WallboxURL_V4
   \<and> getData True repr0 world_v4_success (JStr ''WB1'') False 1 api0 =
       (Inr JNull, api0\<lparr>trace := [Posted (status_request True (token api0) (JStr ''WB1''))]\<rparr>)"
  by code_simp

theorem status_endpoint_fallback_witness:
  "(0 :: int) \<le> 1 \<and> ensure_token world_v4_404 False api0 = (True, api0)
   \<and> (\<exists>rest. trace (snd (getData USE_V4_STATUS repr0 world_v4_404 (JStr ''WB1'') False 1 api0)) =
          trace api0 @ Posted (status_request USE_V4_STATUS (token api0) (JStr ''WB1'')) # rest)
   \<and> v4_fallback_answer repr0
         (world_v4_404 (posts (trace api0)) (status_request True (token api0) (JStr ''WB1'')))
   \<and> (\<exists>rest. trace (snd (getData True repr0 world_v4_404 (JStr ''WB1'') False 1 api0)) =
          trace api0 @ Posted (status_request True (token api0) (JStr ''WB1''))
            # Posted ((status_request True (token api0) (JStr ''WB1''))\<lparr>url := WallboxURL_V3\<rparr>)
            # rest)
   \<and> ensure_token world_v4_empty False api0 = (True, api0)
   \<and> v4_fallback_answer repr0
         (world_v4_empty (posts (trace api0)) (status_request True (token api0) (JStr ''WB1'')))
   \<and> (\<exists>rest. trace (snd (getData True repr0 world_v4_empty (JStr ''WB1'') False 1 api0)) =
          trace api0 @ Posted (status_request True (token api0) (JStr ''WB1''))
            # Posted ((status_request True (token api0) (JStr ''WB1''))\<lparr>url := WallboxURL_V3\<rparr>)
            # rest)
   \<and> ensure_token world_v4_success False api0 = (True, api0)
   \<and> \<not> v4_fallback_answer repr0
         (world_v4_success (posts (trace api0)) (status_request True (token api0) (JStr ''WB1'')))
   \<and> \<not> expired_status_answer repr0
         (world_v4_success (posts (trace api0)) (status_request True (token api0) (JStr ''WB1'')))
   \<and> getData True repr0 world_v4_success (JStr ''WB1'') False 1 api0 =
       (Inr (status_result
               (world_v4_success (posts (trace api0))
                  (status_request True (token api0) (JStr ''WB1'')))),
        api0\<lparr>trace := trace api0 @ [Posted (status_request True (token api0) (JStr ''WB1''))]\<rparr>)
   \<and> ensure_token world_expired False api0 = (True, api0)
   \<and> \<not> v4_fallback_answer repr0
         (world_expired (posts (trace api0)) (status_request True (token api0) (JStr ''WB1'')))
   \<and> expired_status_answer repr0
         (world_expired (posts (trace api0)) (status_request True (token api0) (JStr ''WB1'')))
   \<and> (\<exists>rest. trace (snd (getData True repr0 world_expired (JStr ''WB1'') False 1 api0)) =
          trace api0 @ Posted (status_request True (token api0) (JStr ''WB1'')) # rest
          \<and> (rest = [] \<or> (\<exists>rest'. rest = TokenCleared # rest')))
   \<and> getData True repr0 world_expired (JStr ''WB1'') False 1 api0 =
       getData True repr0 world_expired (JStr ''WB1'') True (1 - 1)
         (clear_token
            (api0\<lparr>trace := trace api0 @ [Posted (status_request True (token api0) (JStr ''WB1''))]\<rparr>))"
proof -
  note shipped = status_endpoint_fallback [where n = 1 and w = world_v4_404 and renew = False
      and st = api0 and st' = api0 and ?use_v4.0 = USE_V4_STATUS and repr = repr0
      and wsn = "JStr ''WB1''"]
  note not_found = status_endpoint_fallback [where n = 1 and w = world_v4_404 and renew = False
      and st = api0 and st' = api0 and ?use_v4.0 = True and repr = repr0
      and wsn = "JStr ''WB1''"]
  note empty = status_endpoint_fallback [where n = 1 and w = world_v4_empty and renew = False
      and st = api0 and st' = api0 and ?use_v4.0 = True and repr = repr0
      and wsn = "JStr ''WB1''"]
  note success = status_endpoint_fallback [where n = 1 and w = world_v4_success and renew = False
      and st = api0 and st' = api0 and ?use_v4.0 = True and repr = repr0
      and wsn = "JStr ''WB1''"]
  note expired = status_endpoint_fallback [where n = 1 and w = world_expired and renew = False
      and st = api0 and st' = api0 and ?use_v4.0 = True and repr = repr0
      and wsn = "JStr ''WB1''"]
  have n: "(0 :: int) \<le> 1" by simp
  have e1: "ensure_token world_v4_404 False api0 = (True, api0)"
    and e2: "ensure_token world_v4_empty False api0 = (True, api0)"
    and e3: "ensure_token world_v4_success False api0 = (True, api0)"
    and e4: "ensure_token world_expired False api0 = (True, api0)"
    by (simp_all add: ensure_token_cached api0_def)
  have f1: "v4_fallback_answer repr0
         (world_v4_404 (posts (trace api0)) (status_request True (token api0) (JStr ''WB1'')))"
    by code_simp
  have f2: "v4_fallback_answer repr0
         (world_v4_empty (posts (trace api0)) (status_request True (token api0) (JStr ''WB1'')))"
    by code_simp
  have f3: "\<not> v4_fallback_answer repr0
         (world_v4_success (posts (trace api0)) (status_request True (token api0) (JStr ''WB1'')))"
    by code_simp
  have f4: "\<not> expired_status_answer repr0
         (world_v4_success (posts (trace api0)) (status_request True (token api0) (JStr ''WB1'')))"
    by code_simp
  have f5: "\<not> v4_fallback_answer repr0
         (world_expired (posts (trace api0)) (status_request True (token api0) (JStr ''WB1'')))"
    by code_simp
  have f6: "expired_status_answer repr0
         (world_expired (posts (trace api0)) (status_request True (token api0) (JStr ''WB1'')))"
    by code_simp
  have a: "\<exists>rest. trace (snd (getData USE_V4_STATUS repr0 world_v4_404 (JStr ''WB1'') False 1 api0)) =
          trace api0 @ Posted (status_request USE_V4_STATUS (token api0) (JStr ''WB1'')) # rest"
    using shipped n e1 by blast
  have b: "\<exists>rest. trace (snd (getData True repr0 world_v4_404 (JStr ''WB1'') False 1 api0)) =
          trace api0 @ Posted (status_request True (token api0) (JStr ''WB1''))
            # Posted ((status_request True (token api0) (JStr ''WB1''))\<lparr>url := WallboxURL_V3\<rparr>)
            # rest"
    using not_found n e1 f1 by blast
  have c: "\<exists>rest. trace (snd (getData True repr0 world_v4_empty (JStr ''WB1'') False 1 api0)) =
          trace api0 @ Posted (status_request True (token api0) (JStr ''WB1''))
            # Posted ((status_request True (token api0) (JStr ''WB1''))\<lparr>url := WallboxURL_V3\<rparr>)
            # rest"
    using empty n e2 f2 by blast
  have d: "getData True repr0 world_v4_success (JStr ''WB1'') False 1 api0 =
       (Inr (status_result
               (world_v4_success (posts (trace api0))
                  (status_request True (token api0) (JStr ''WB1'')))),
        api0\<lparr>trace := trace api0 @ [Posted (status_request True (token api0) (JStr ''WB1''))]\<rparr>)"
    using success n e3 f3 f4 by blast
  have g: "\<exists>rest. trace (snd (getData True repr0 world_expired (JStr ''WB1'') False 1 api0)) =
          trace api0 @ Posted (status_request True (token api0) (JStr ''WB1'')) # rest
          \<and> (rest = [] \<or> (\<exists>rest'. rest = TokenCleared # rest'))"
    using expired n e4 f5 by blast
  have h: "getData True repr0 world_expired (JStr ''WB1'') False 1 api0 =
       getData True repr0 world_expired (JStr ''WB1'') True (1 - 1)
         (clear_token
            (api0\<lparr>trace := trace api0 @ [Posted (status_request True (token api0) (JStr ''WB1''))]\<rparr>))"
    using expired n e4 f5 f6 by blast
  from n e1 a f1 b e2 f2 c e3 f3 f4 d e4 f5 f6 g h show ?thesis
    by (intro conjI)
qed

section \<open>The retry budget\<close>

text \<open>
  C2. Entered with a negative \<^verbatim>\<open>maxTokenRetries\<close>, getData raises OutOfRetries and
  leaves the client as it was. When the getData of a poll raises OutOfRetries,
  \<^verbatim>\<open>_async_update_data\<close> raises UpdateFailed with the message about too many retries.
  A poll reaches that call after two answers that call the authorization expired, with a
  login that succeeds between them.
\<close>

theorem out_of_retries_update_failed:
  "(n < 0 \<longrightarrow> getData use_v4 repr w wsn renew n st = (Inl OutOfRetries, st))
   \<and> (fst (getData use_v4 repr w (JStr station_id) False 1 st) = Inl OutOfRetries \<longrightarrow>
        fst (async_update_data use_v4 repr w station_id st) = Inl (UpdateFailed TooManyRetries))
   \<and> (ensure_token w False st = (True, st')
       \<and> expired_status_answer repr
            (w (posts (trace st')) (status_request USE_V4_STATUS (token st') (JStr station_id)))
       \<and> login_token (w (Suc (posts (trace st'))) (login_request st')) = Some t
       \<and> expired_status_answer repr
            (w (Suc (Suc (posts (trace st'))))
               (status_request USE_V4_STATUS (Some t) (JStr station_id))) \<longrightarrow>
        fst (async_update_data USE_V4_STATUS repr w station_id st) =
          Inl (UpdateFailed TooManyRetries))"
proof (intro conjI impI)
  assume "n < 0"
  then show "getData use_v4 repr w wsn renew n st = (Inl OutOfRetries, st)"
    by (rule getData_neg)
next
  assume "fst (getData use_v4 repr w (JStr station_id) False 1 st) = Inl OutOfRetries"
  then show "fst (async_update_data use_v4 repr w station_id st) =
      Inl (UpdateFailed TooManyRetries)"
    by (simp add: update_fails_raised)
next
  assume a: "ensure_token w False st = (True, st')
       \<and> expired_status_answer repr
            (w (posts (trace st')) (status_request USE_V4_STATUS (token st') (JStr station_id)))
       \<and> login_token (w (Suc (posts (trace st'))) (login_request st')) = Some t
       \<and> expired_status_answer repr
            (w (Suc (Suc (posts (trace st'))))
               (status_request USE_V4_STATUS (Some t) (JStr station_id)))"
  then have "fst (getData USE_V4_STATUS repr w (JStr station_id) False 1 st) = Inl OutOfRetries"
    unfolding USE_V4_STATUS_def by (simp add: getData_expired_retry Let_def)
  then show "fst (async_update_data USE_V4_STATUS repr w station_id st) =
      Inl (UpdateFailed TooManyRetries)"
    by (simp add: update_fails_raised)
qed

theorem out_of_retries_update_failed_witness:
  "(-1 :: int) < 0
   \<and> getData USE_V4_STATUS repr0 world_expired (JStr ''WB1'') True (-1) api0 = (Inl OutOfRetries, api0)
   \<and> fst (getData USE_V4_STATUS repr0 world_expired (JStr ''WB1'') False 1 api0) = Inl OutOfRetries
   \<and> ensure_token world_expired False api0 = (True, api0)
   \<and> expired_status_answer repr0
        (world_expired (posts (trace api0)) (status_request USE_V4_STATUS (token api0) (JStr ''WB1'')))
   \<and> login_token (world_expired (Suc (posts (trace api0))) (login_request api0)) =
        Some [(''uid'', JStr ''u2''), (''api'', JNull)]
   \<and> expired_status_answer repr0
        (world_expired (Suc (Suc (posts (trace api0))))
           (status_request USE_V4_STATUS (Some [(''uid'', JStr ''u2''), (''api'', JNull)])
              (JStr ''WB1'')))
   \<and> fst (async_update_data USE_V4_STATUS repr0 world_expired ''WB1'' api0) =
       Inl (UpdateFailed TooManyRetries)"
proof -
  have h: "fst (getData USE_V4_STATUS repr0 world_expired (JStr ''WB1'') False 1 api0) = Inl OutOfRetries"
    by code_simp
  have e: "ensure_token world_expired False api0 = (True, api0)"
    by (simp add: ensure_token_cached api0_def)
  have x1: "expired_status_answer repr0
        (world_expired (posts (trace api0)) (status_request USE_V4_STATUS (token api0) (JStr ''WB1'')))"
    by code_simp
  have l: "login_token (world_expired (Suc (posts (trace api0))) (login_request api0)) =
        Some [(''uid'', JStr ''u2''), (''api'', JNull)]"
    by code_simp
  have x2: "expired_status_answer repr0
        (world_expired (Suc (Suc (posts (trace api0))))
           (status_request USE_V4_STATUS (Some [(''uid'', JStr ''u2''), (''api'', JNull)])
              (JStr ''WB1'')))"
    by code_simp
  note inst = out_of_retries_update_failed [where n = "-1" and ?use_v4.0 = USE_V4_STATUS
      and repr = repr0 and w = world_expired and wsn = "JStr ''WB1''" and renew = True
      and st = api0 and st' = api0 and station_id = "''WB1''"
      and t = "[(''uid'', JStr ''u2''), (''api'', JNull)]"]
  have g: "getData USE_V4_STATUS repr0 world_expired (JStr ''WB1'') True (-1) api0 =
      (Inl OutOfRetries, api0)"
    using inst by simp
  have u: "fst (async_update_data USE_V4_STATUS repr0 world_expired ''WB1'' api0) =
       Inl (UpdateFailed TooManyRetries)"
    using inst e x1 l x2 by blast
  from g h e x1 l x2 u show ?thesis
    by simp
qed

end
